theory Spec2Isabelle
  imports Main "HOL-Library.Word"
begin

section \<open>JavaScript values used by the storage module\<close>

text \<open>
  A JavaScript string is a sequence of UTF-16 code units; the regular expression of the
  key naming scheme has no \<open>u\<close> flag, so it inspects one code unit at a time. ASCII
  literals of the source are written \<open>js ''...''\<close>.
\<close>

type_synonym jsstring = "16 word list"

type_synonym bytes = "8 word list"

definition js :: "string \<Rightarrow> jsstring" where
  "js s = map of_char s"

text \<open>
  \<open>Number.prototype.toString\<close> (and the conversion inside a template literal) on a
  non-negative integer below \<open>10^21\<close>: the decimal digits. \<open>Date.now()\<close>, \<open>File.size\<close>
  and \<open>MAX_FILE_SIZE_MB\<close> are such numbers.
\<close>

fun toString :: "nat \<Rightarrow> jsstring" where
  "toString n =
     (if n < 10 then [of_nat (48 + n)]
      else toString (n div 10) @ [of_nat (48 + n mod 10)])"

declare toString.simps [simp del]

definition startsWith :: "jsstring \<Rightarrow> jsstring \<Rightarrow> bool" where
  "startsWith s p \<longleftrightarrow> take (length p) s = p"

definition endsWith :: "jsstring \<Rightarrow> jsstring \<Rightarrow> bool" where
  "endsWith s p \<longleftrightarrow> length p \<le> length s \<and> drop (length s - length p) s = p"

text \<open>\<open>key.split("/").pop()\<close>: the segment after the last slash (code unit \<open>0x2F\<close>).\<close>

definition split_pop :: "jsstring \<Rightarrow> jsstring" where
  "split_pop s = rev (takeWhile (\<lambda>c. c \<noteq> 0x2F) (rev s))"

text \<open>
  What a \<open>catch\<close> clause can receive: an \<open>S3ServiceException\<close> (with its \<open>name\<close> and
  \<open>message\<close>), any other \<open>Error\<close> (with its \<open>message\<close>), or a value that is not an
  \<open>Error\<close> at all. A rejected promise is \<open>Inl\<close> of such a value.
\<close>

datatype thrown =
    S3ServiceException jsstring jsstring
  | JsError jsstring
  | NonError

text \<open>
  The browser \<open>File\<close>: \<open>size\<close> is a property of its own (not recomputed from the
  content), and \<open>arrayBuffer()\<close> is a promise that may reject.
\<close>

record js_file =
  file_name :: jsstring
  file_size :: nat
  file_type :: jsstring
  file_arrayBuffer :: "thrown + bytes"

text \<open>
  The document object of the PDF library, as far as the module touches it: the
  information fields, and the rest of the document as an opaque body.
\<close>

record pdf_doc =
  doc_title :: "jsstring option"
  doc_author :: "jsstring option"
  doc_subject :: "jsstring option"
  doc_producer :: "jsstring option"
  doc_creator :: "jsstring option"
  doc_keywords :: "jsstring list option"
  doc_body :: bytes

section \<open>The object store and the other capabilities\<close>

text \<open>
  The two kinds of body the module gives to a put: the PDF path wraps its bytes in a
  \<open>Uint8Array\<close>, the Excel path passes the \<open>ArrayBuffer\<close> as it is.
\<close>

datatype body = Uint8Array bytes | ArrayBuffer bytes

record upload_params =
  Bucket :: jsstring
  Key :: jsstring
  Body :: body
  ContentType :: jsstring
  ContentDisposition :: jsstring
  Metadata :: "(string \<times> jsstring) list"

datatype command =
    PutObjectCommand jsstring jsstring
  | DeleteObjectCommand jsstring jsstring
  | ListObjectsV2Command jsstring jsstring nat

text \<open>An entry of a listing; every field of it may be undefined.\<close>

record s3_object =
  obj_Key :: "jsstring option"
  obj_Size :: "nat option"
  obj_LastModified :: "nat option"

record response =
  Contents :: "s3_object list option"

text \<open>
  Every invocation of a capability is recorded, in order: the two calls into the PDF
  library, the put (\<open>new Upload(...).done()\<close>), a command sent through the client, and a
  presigning request.
\<close>

datatype call =
    PdfLoad bytes
  | PdfSave pdf_doc
  | UploadDone upload_params
  | Send command
  | Presign command nat

type_synonym presigner = "command \<Rightarrow> nat \<Rightarrow> thrown + jsstring"

text \<open>
  The environment of one operation. The object store is a state of any type \<open>'s\<close>
  that only the put and the client's \<open>send\<close> can read or change. The clock, the ISO
  rendering of a date, \<open>encodeURIComponent\<close> (which throws on a lone surrogate) and the
  PDF library are built-ins or libraries and are taken as given. \<open>excelSettlesFirst\<close>
  says which of the two concurrent listings settles first. The clock is read as one
  value for the whole operation, \<open>send\<close> and \<open>done\<close> fail by rejecting their promise, and
  what the module writes to the console is left out.
\<close>

record 's env =
  BUCKET_NAME :: jsstring
  Date_now :: nat
  toISOString :: "nat \<Rightarrow> jsstring"
  encodeURIComponent :: "jsstring \<Rightarrow> thrown + jsstring"
  PDFDocument_load :: "bytes \<Rightarrow> thrown + pdf_doc"
  PDFDocument_save :: "pdf_doc \<Rightarrow> thrown + bytes"
  upload_done :: "upload_params \<Rightarrow> 's \<Rightarrow> thrown option \<times> 's"
  s3Client_send :: "command \<Rightarrow> 's \<Rightarrow> (thrown + response) \<times> 's"
  import_presigner :: "presigner option"
  excelSettlesFirst :: bool

text \<open>
  The state an operation runs in: the object store, the record of capability calls, and
  the module-level variable \<open>getSignedUrl\<close> (undefined until an import succeeds).
\<close>

record 's world =
  store :: 's
  calls :: "call list"
  getSignedUrl :: "presigner option"

definition send :: "'s env \<Rightarrow> command \<Rightarrow> 's world \<Rightarrow> (thrown + response) \<times> 's world" where
  "send env cmd w =
     (case s3Client_send env cmd (store w) of
        (r, s') \<Rightarrow> (r, w\<lparr>store := s', calls := calls w @ [Send cmd]\<rparr>))"

definition Upload_done :: "'s env \<Rightarrow> upload_params \<Rightarrow> 's world \<Rightarrow> thrown option \<times> 's world" where
  "Upload_done env params w =
     (case upload_done env params (store w) of
        (r, s') \<Rightarrow> (r, w\<lparr>store := s', calls := calls w @ [UploadDone params]\<rparr>))"

section \<open>The storage module (src/unnamed/part\_001)\<close>

definition MAX_FILE_SIZE_MB :: nat where
  "MAX_FILE_SIZE_MB = 100"

definition validateFileSize :: "js_file \<Rightarrow> thrown + bool" where
  "validateFileSize f =
     (let maxSizeBytes = MAX_FILE_SIZE_MB * 1024 * 1024 in
      if file_size f > maxSizeBytes
      then Inl (JsError (js ''File too large. Maximum size is '' @ toString MAX_FILE_SIZE_MB
                         @ js ''MB.''))
      else Inr True)"

subsection \<open>Metadata embedding\<close>

definition addSourceLinkToPdf_catch :: "thrown \<Rightarrow> thrown" where
  "addSourceLinkToPdf_catch error =
     (case error of
        S3ServiceException name message \<Rightarrow>
          JsError (js ''Failed to modify PDF metadata: '' @ message)
      | JsError message \<Rightarrow> JsError (js ''Failed to modify PDF metadata: '' @ message)
      | NonError \<Rightarrow> JsError (js ''Failed to modify PDF metadata due to unknown error''))"

text \<open>The six setter calls between \<open>load\<close> and \<open>save\<close>.\<close>

definition setMetadata :: "'s env \<Rightarrow> js_file \<Rightarrow> jsstring \<Rightarrow> pdf_doc \<Rightarrow> pdf_doc" where
  "setMetadata env pdfFile sourceLink pdfDoc =
     pdfDoc\<lparr>doc_title := Some (js ''Document: '' @ file_name pdfFile),
            doc_author := Some (js ''Document Management System''),
            doc_subject := Some sourceLink,
            doc_producer := Some (js ''DMS Upload Tool''),
            doc_creator := Some (js ''DMS Upload Tool''),
            doc_keywords := Some [js ''source:'' @ sourceLink,
                              js ''upload:'' @ toISOString env (Date_now env)]\<rparr>"

definition addSourceLinkToPdf ::
  "'s env \<Rightarrow> js_file \<Rightarrow> jsstring \<Rightarrow> 's world \<Rightarrow> (thrown + bytes) \<times> 's world" where
  "addSourceLinkToPdf env pdfFile sourceLink w =
     (case file_arrayBuffer pdfFile of
        Inl error \<Rightarrow> (Inl (addSourceLinkToPdf_catch error), w)
      | Inr arrayBuffer \<Rightarrow>
          (let w1 = w\<lparr>calls := calls w @ [PdfLoad arrayBuffer]\<rparr> in
           case PDFDocument_load env arrayBuffer of
             Inl error \<Rightarrow> (Inl (addSourceLinkToPdf_catch error), w1)
           | Inr pdfDoc \<Rightarrow>
               (let pdfDoc' = setMetadata env pdfFile sourceLink pdfDoc;
                    w2 = w1\<lparr>calls := calls w1 @ [PdfSave pdfDoc']\<rparr> in
                case PDFDocument_save env pdfDoc' of
                  Inl error \<Rightarrow> (Inl (addSourceLinkToPdf_catch error), w2)
                | Inr modifiedPdfBytes \<Rightarrow> (Inr modifiedPdfBytes, w2))))"

subsection \<open>Key naming\<close>

text \<open>The character class \<open>[a-zA-Z0-9._-]\<close>, on code units.\<close>

definition allowedChar :: "16 word \<Rightarrow> bool" where
  "allowedChar c \<longleftrightarrow>
     (0x61 \<le> c \<and> c \<le> 0x7A) \<or> (0x41 \<le> c \<and> c \<le> 0x5A) \<or> (0x30 \<le> c \<and> c \<le> 0x39)
     \<or> c = 0x2E \<or> c = 0x5F \<or> c = 0x2D"

text \<open>\<open>name.replace(/[^a-zA-Z0-9._-]/g, "_")\<close>\<close>

definition sanitizeName :: "jsstring \<Rightarrow> jsstring" where
  "sanitizeName name = map (\<lambda>c. if allowedChar c then c else 0x5F) name"

subsection \<open>Uploads\<close>

definition uploadPdfToS3_catch :: "thrown \<Rightarrow> thrown" where
  "uploadPdfToS3_catch error =
     (case error of
        S3ServiceException name message \<Rightarrow>
          JsError (js ''S3 upload failed: '' @ name @ js '' - '' @ message)
      | JsError message \<Rightarrow> JsError (js ''Failed to upload PDF: '' @ message)
      | NonError \<Rightarrow> JsError (js ''Failed to upload PDF due to unknown error''))"

definition uploadPdfToS3 ::
  "'s env \<Rightarrow> js_file \<Rightarrow> jsstring \<Rightarrow> 's world \<Rightarrow> (thrown + jsstring) \<times> 's world" where
  "uploadPdfToS3 env pdfFile sourceLink w =
     (let BUCKET_NAME' = js ''major-project-margdarshak'' in
      if BUCKET_NAME' = []
      then (Inl (uploadPdfToS3_catch (JsError (js
              ''S3 bucket name is not defined. Check your environment configuration.''))), w)
      else
        case validateFileSize pdfFile of
          Inl error \<Rightarrow> (Inl (uploadPdfToS3_catch error), w)
        | Inr _ \<Rightarrow>
           (case addSourceLinkToPdf env pdfFile sourceLink w of
              (Inl error, w1) \<Rightarrow> (Inl (uploadPdfToS3_catch error), w1)
            | (Inr modifiedPdfBytes, w1) \<Rightarrow>
               (let timestamp = Date_now env;
                    sanitizedName = sanitizeName (file_name pdfFile);
                    fileKey = js ''pdf_files/'' @ toString timestamp @ js ''-'' @ sanitizedName
                in
                case encodeURIComponent env sourceLink of
                  Inl error \<Rightarrow> (Inl (uploadPdfToS3_catch error), w1)
                | Inr encodedLink \<Rightarrow>
                   (case encodeURIComponent env (file_name pdfFile) of
                      Inl error \<Rightarrow> (Inl (uploadPdfToS3_catch error), w1)
                    | Inr encodedName \<Rightarrow>
                       (let params = \<lparr>Bucket = BUCKET_NAME', Key = fileKey,
                              Body = Uint8Array modifiedPdfBytes,
                              ContentType = js ''application/pdf'',
                              ContentDisposition =
                                js ''attachment; filename='' @ [0x22] @ sanitizedName @ [0x22],
                              Metadata = [(''sourceLink'', encodedLink),
                                          (''originalName'', encodedName),
                                          (''uploadTimestamp'', toString timestamp),
                                          (''fileSize'', toString (file_size pdfFile))]\<rparr>
                        in
                        case Upload_done env params w1 of
                          (Some error, w2) \<Rightarrow> (Inl (uploadPdfToS3_catch error), w2)
                        | (None, w2) \<Rightarrow> (Inr fileKey, w2))))))"

definition uploadExcelToS3_catch :: "thrown \<Rightarrow> thrown" where
  "uploadExcelToS3_catch error =
     (case error of
        S3ServiceException name message \<Rightarrow>
          JsError (js ''S3 upload failed: '' @ name @ js '' - '' @ message)
      | JsError message \<Rightarrow> JsError (js ''Failed to upload Excel: '' @ message)
      | NonError \<Rightarrow> JsError (js ''Failed to upload Excel due to unknown error''))"

definition validExcelTypes :: "jsstring list" where
  "validExcelTypes =
     [js ''application/vnd.ms-excel'',
      js ''application/vnd.openxmlformats-officedocument.spreadsheetml.sheet'',
      js ''application/vnd.oasis.opendocument.spreadsheet'']"

definition uploadExcelToS3 ::
  "'s env \<Rightarrow> js_file \<Rightarrow> 's world \<Rightarrow> (thrown + jsstring) \<times> 's world" where
  "uploadExcelToS3 env excelFile w =
     (case validateFileSize excelFile of
        Inl error \<Rightarrow> (Inl (uploadExcelToS3_catch error), w)
      | Inr _ \<Rightarrow>
         if file_type excelFile \<notin> set validExcelTypes
         then (Inl (uploadExcelToS3_catch (JsError (js
                 ''Invalid Excel file format. Please upload a valid Excel file.''))), w)
         else
          (let timestamp = Date_now env;
               sanitizedName = sanitizeName (file_name excelFile);
               fileKey = js ''excel_sheets/'' @ toString timestamp @ js ''-'' @ sanitizedName
           in
           case file_arrayBuffer excelFile of
             Inl error \<Rightarrow> (Inl (uploadExcelToS3_catch error), w)
           | Inr arrayBuffer \<Rightarrow>
              (case encodeURIComponent env (file_name excelFile) of
                 Inl error \<Rightarrow> (Inl (uploadExcelToS3_catch error), w)
               | Inr encodedName \<Rightarrow>
                  (let params = \<lparr>Bucket = BUCKET_NAME env, Key = fileKey,
                         Body = ArrayBuffer arrayBuffer,
                         ContentType = file_type excelFile,
                         ContentDisposition =
                           js ''attachment; filename='' @ [0x22] @ sanitizedName @ [0x22],
                         Metadata = [(''originalName'', encodedName),
                                     (''uploadTimestamp'', toString timestamp),
                                     (''fileSize'', toString (file_size excelFile))]\<rparr>
                   in
                   case Upload_done env params w of
                     (Some error, w1) \<Rightarrow> (Inl (uploadExcelToS3_catch error), w1)
                   | (None, w1) \<Rightarrow> (Inr fileKey, w1)))))"

subsection \<open>Listing\<close>

record FileInfo =
  fi_id :: jsstring
  fi_name :: jsstring
  fi_type :: jsstring
  fi_uploadedAt :: nat
  fi_size :: nat
  fi_url :: jsstring

definition listFilesFromS3_catch :: "thrown \<Rightarrow> thrown" where
  "listFilesFromS3_catch error =
     (case error of
        S3ServiceException name message \<Rightarrow>
          JsError (js ''S3 list operation failed: '' @ name @ js '' - '' @ message)
      | JsError message \<Rightarrow> JsError (js ''Failed to list files: '' @ message)
      | NonError \<Rightarrow> JsError (js ''Failed to list files due to unknown error''))"

text \<open>The callback of \<open>map\<close>; it runs on entries that passed the filter, whose key is set.\<close>

definition toFileInfo :: "'s env \<Rightarrow> string \<Rightarrow> s3_object \<Rightarrow> FileInfo" where
  "toFileInfo env ty item =
     (let k = (case obj_Key item of None \<Rightarrow> [] | Some key \<Rightarrow> key) in
      \<lparr>fi_id = k,
       fi_name = split_pop k,
       fi_type = js ty,
       fi_uploadedAt = (case obj_LastModified item of None \<Rightarrow> Date_now env | Some d \<Rightarrow> d),
       fi_size = (case obj_Size item of None \<Rightarrow> 0 | Some n \<Rightarrow> n),
       fi_url = js ''https://'' @ BUCKET_NAME env @ js ''.s3.amazonaws.com/'' @ k\<rparr>)"

definition isPdfItem :: "s3_object \<Rightarrow> bool" where
  "isPdfItem item =
     (case obj_Key item of None \<Rightarrow> False
      | Some key \<Rightarrow> key \<noteq> [] \<and> endsWith key (js ''.pdf''))"

definition isExcelItem :: "s3_object \<Rightarrow> bool" where
  "isExcelItem item =
     (case obj_Key item of None \<Rightarrow> False
      | Some key \<Rightarrow> key \<noteq> [] \<and>
          (endsWith key (js ''.xlsx'') \<or> endsWith key (js ''.xls'')
           \<or> endsWith key (js ''.ods'')))"

definition contentsOrEmpty :: "response \<Rightarrow> s3_object list" where
  "contentsOrEmpty r = (case Contents r of None \<Rightarrow> [] | Some items \<Rightarrow> items)"

text \<open>
  Both commands are sent before either is awaited; \<open>Promise.all\<close> rejects with the
  rejection that settles first and fulfils only when both listings have.
\<close>

definition listFilesFromS3 :: "'s env \<Rightarrow> 's world \<Rightarrow> (thrown + FileInfo list) \<times> 's world" where
  "listFilesFromS3 env w =
     (let pdfCommand = ListObjectsV2Command (BUCKET_NAME env) (js ''pdf_files/'') 1000;
          excelCommand = ListObjectsV2Command (BUCKET_NAME env) (js ''excel_sheets/'') 1000
      in
      case send env pdfCommand w of (pdfSettled, w1) \<Rightarrow>
      case send env excelCommand w1 of (excelSettled, w2) \<Rightarrow>
        (case (pdfSettled, excelSettled) of
           (Inl pdfError, Inl excelError) \<Rightarrow>
             (Inl (listFilesFromS3_catch
                     (if excelSettlesFirst env then excelError else pdfError)), w2)
         | (Inl pdfError, Inr _) \<Rightarrow> (Inl (listFilesFromS3_catch pdfError), w2)
         | (Inr _, Inl excelError) \<Rightarrow> (Inl (listFilesFromS3_catch excelError), w2)
         | (Inr pdfResponse, Inr excelResponse) \<Rightarrow>
             (let pdfFiles = map (toFileInfo env ''pdf'')
                               (filter isPdfItem (contentsOrEmpty pdfResponse));
                  excelFiles = map (toFileInfo env ''excel'')
                                 (filter isExcelItem (contentsOrEmpty excelResponse))
              in (Inr (pdfFiles @ excelFiles), w2))))"

subsection \<open>Presigning\<close>

definition getPresignedUrl_catch :: "thrown \<Rightarrow> thrown" where
  "getPresignedUrl_catch error =
     (case error of
        S3ServiceException name message \<Rightarrow>
          JsError (js ''Failed to generate URL: '' @ name @ js '' - '' @ message)
      | JsError message \<Rightarrow> JsError (js ''Failed to generate URL: '' @ message)
      | NonError \<Rightarrow> JsError (js ''Failed to generate URL due to unknown error''))"

text \<open>
  The optional second argument defaults to 3600. A successful dynamic import overwrites
  the module-level \<open>getSignedUrl\<close>; a failed one leaves it as it was.
\<close>

definition getPresignedUrl ::
  "'s env \<Rightarrow> jsstring \<Rightarrow> nat option \<Rightarrow> 's world \<Rightarrow> (thrown + jsstring) \<times> 's world" where
  "getPresignedUrl env fileKey expiresInArg w =
     (let expiresIn = (case expiresInArg of None \<Rightarrow> 3600 | Some n \<Rightarrow> n);
          w1 = (case import_presigner env of
                  Some importedGetSignedUrl \<Rightarrow> w\<lparr>getSignedUrl := Some importedGetSignedUrl\<rparr>
                | None \<Rightarrow> w)
      in
      case getSignedUrl w1 of
        Some sign \<Rightarrow>
          (let command = PutObjectCommand (BUCKET_NAME env) fileKey;
               w2 = w1\<lparr>calls := calls w1 @ [Presign command expiresIn]\<rparr>
           in case sign command expiresIn of
                Inl error \<Rightarrow> (Inl (getPresignedUrl_catch error), w2)
              | Inr url \<Rightarrow> (Inr url, w2))
      | None \<Rightarrow>
          (Inr (js ''https://'' @ BUCKET_NAME env @ js ''.s3.amazonaws.com/'' @ fileKey), w1))"

subsection \<open>Deletion\<close>

definition deleteFileFromS3_catch :: "thrown \<Rightarrow> thrown" where
  "deleteFileFromS3_catch error =
     (case error of
        S3ServiceException name message \<Rightarrow>
          JsError (js ''S3 delete operation failed: '' @ name @ js '' - '' @ message)
      | JsError message \<Rightarrow> JsError (js ''Failed to delete file: '' @ message)
      | NonError \<Rightarrow> JsError (js ''Failed to delete file due to unknown error''))"

definition deleteFileFromS3 :: "'s env \<Rightarrow> jsstring \<Rightarrow> 's world \<Rightarrow> (thrown + unit) \<times> 's world" where
  "deleteFileFromS3 env fileKey w =
     (if fileKey = []
      then (Inl (deleteFileFromS3_catch (JsError (js ''File key is required''))), w)
      else if \<not> startsWith fileKey (js ''pdf_files/'')
              \<and> \<not> startsWith fileKey (js ''excel_sheets/'')
      then (Inl (deleteFileFromS3_catch (JsError (js ''Invalid file key format''))), w)
      else
        (let command = DeleteObjectCommand (BUCKET_NAME env) fileKey in
         case send env command w of
           (Inl error, w1) \<Rightarrow> (Inl (deleteFileFromS3_catch error), w1)
         | (Inr _, w1) \<Rightarrow> (Inr (), w1)))"

section \<open>The earlier storage module (src/src/lib/s3.ts)\<close>

text \<open>
  Its \<open>deleteFileFromS3\<close> sends the command whatever the key is, and replaces every
  failure by one fixed \<open>Error\<close>. (The dynamic import in it is of the module that the file
  already imports statically, so it resolves.)
\<close>

definition lib_deleteFileFromS3 ::
  "'s env \<Rightarrow> jsstring \<Rightarrow> 's world \<Rightarrow> (thrown + unit) \<times> 's world" where
  "lib_deleteFileFromS3 env fileKey w =
     (let command = DeleteObjectCommand (BUCKET_NAME env) fileKey in
      case send env command w of
        (Inl error, w1) \<Rightarrow> (Inl (JsError (js ''Failed to delete file from S3'')), w1)
      | (Inr _, w1) \<Rightarrow> (Inr (), w1))"

section \<open>The built-in \<open>encodeURIComponent\<close>, for running the operations on concrete inputs\<close>

text \<open>
  ECMAScript's \<open>Encode\<close> with the unescaped set of \<open>encodeURIComponent\<close>: letters, digits
  and \<open>- _ . ! ~ * ' ( )\<close> are kept; every other code point is written as the
  percent-escapes of its UTF-8 octets; an unpaired surrogate throws a \<open>URIError\<close>.
\<close>

definition uriUnescaped :: "16 word \<Rightarrow> bool" where
  "uriUnescaped c \<longleftrightarrow>
     (0x61 \<le> c \<and> c \<le> 0x7A) \<or> (0x41 \<le> c \<and> c \<le> 0x5A) \<or> (0x30 \<le> c \<and> c \<le> 0x39)
     \<or> c \<in> set [0x2D, 0x5F, 0x2E, 0x21, 0x7E, 0x2A, 0x27, 0x28, 0x29]"

definition hexDigit :: "nat \<Rightarrow> 16 word" where
  "hexDigit n = (if n < 10 then of_nat (48 + n) else of_nat (55 + n))"

definition percent :: "nat \<Rightarrow> jsstring" where
  "percent octet = [0x25, hexDigit (octet div 16), hexDigit (octet mod 16)]"

definition utf8 :: "nat \<Rightarrow> nat list" where
  "utf8 cp =
     (if cp < 0x80 then [cp]
      else if cp < 0x800 then [0xC0 + cp div 64, 0x80 + cp mod 64]
      else if cp < 0x10000
      then [0xE0 + cp div 4096, 0x80 + (cp div 64) mod 64, 0x80 + cp mod 64]
      else [0xF0 + cp div 262144, 0x80 + (cp div 4096) mod 64,
            0x80 + (cp div 64) mod 64, 0x80 + cp mod 64])"

definition URIError :: thrown where
  "URIError = JsError (js ''URI malformed'')"

fun js_encodeURIComponent :: "jsstring \<Rightarrow> thrown + jsstring" where
  "js_encodeURIComponent [] = Inr []"
| "js_encodeURIComponent [c] =
     (if uriUnescaped c then Inr [c]
      else if 0xD800 \<le> c \<and> c \<le> 0xDFFF then Inl URIError
      else Inr (concat (map percent (utf8 (unat c)))))"
| "js_encodeURIComponent (c # d # ds) =
     (if uriUnescaped c
      then (case js_encodeURIComponent (d # ds) of
              Inl e \<Rightarrow> Inl e | Inr r \<Rightarrow> Inr (c # r))
      else if 0xDC00 \<le> c \<and> c \<le> 0xDFFF then Inl URIError
      else if 0xD800 \<le> c \<and> c \<le> 0xDBFF
      then (if 0xDC00 \<le> d \<and> d \<le> 0xDFFF
            then (case js_encodeURIComponent ds of
                    Inl e \<Rightarrow> Inl e
                  | Inr r \<Rightarrow>
                      Inr (concat (map percent
                             (utf8 (0x10000 + (unat c - 0xD800) * 1024 + (unat d - 0xDC00))))
                           @ r))
            else Inl URIError)
      else (case js_encodeURIComponent (d # ds) of
              Inl e \<Rightarrow> Inl e
            | Inr r \<Rightarrow> Inr (concat (map percent (utf8 (unat c))) @ r)))"

section \<open>A backend held in memory, for running the operations on concrete inputs\<close>

type_synonym mem_store = "(jsstring \<times> bytes) list"

text \<open>
  The put of the in-memory backend stores a \<open>Uint8Array\<close> body under the key and, like
  the upload library, rejects an \<open>ArrayBuffer\<close> body with a plain \<open>Error\<close>.
\<close>

definition unsupported_body :: jsstring where
  "unsupported_body = js ''Body Data is unsupported format''"

definition mem_upload_done :: "upload_params \<Rightarrow> mem_store \<Rightarrow> thrown option \<times> mem_store" where
  "mem_upload_done p s =
     (case Body p of
        Uint8Array b \<Rightarrow> (None, (Key p, b) # filter (\<lambda>(k, b'). k \<noteq> Key p) s)
      | ArrayBuffer b \<Rightarrow> (Some (JsError unsupported_body), s))"

definition mem_send :: "command \<Rightarrow> mem_store \<Rightarrow> (thrown + response) \<times> mem_store" where
  "mem_send cmd s =
     (case cmd of
        PutObjectCommand bucket key \<Rightarrow> (Inr \<lparr>Contents = None\<rparr>, s)
      | DeleteObjectCommand bucket key \<Rightarrow>
          (Inr \<lparr>Contents = None\<rparr>, filter (\<lambda>(k, b). k \<noteq> key) s)
      | ListObjectsV2Command bucket pre maxKeys \<Rightarrow>
          (Inr \<lparr>Contents = Some (map (\<lambda>(k, b). \<lparr>obj_Key = Some k, obj_Size = Some (length b),
                                                 obj_LastModified = None\<rparr>)
                                    (take maxKeys (filter (\<lambda>(k, b). startsWith k pre) s)))\<rparr>, s))"

definition empty_doc :: pdf_doc where
  "empty_doc = \<lparr>doc_title = None, doc_author = None, doc_subject = None, doc_producer = None,
                doc_creator = None, doc_keywords = None, doc_body = [1, 2, 3]\<rparr>"

text \<open>
  A stand-in for the PDF library that knows two byte strings: \<open>[0x25, 0x50]\<close> is
  \<open>empty_doc\<close>, and \<open>[0x25, 0x51]\<close> is the document \<open>d\<close> given to it.
\<close>

definition toy_load :: "pdf_doc \<Rightarrow> bytes \<Rightarrow> thrown + pdf_doc" where
  "toy_load d b =
     (if b = [0x25, 0x50] then Inr empty_doc
      else if b = [0x25, 0x51] then Inr d
      else Inl (JsError (js ''No PDF header found'')))"

definition toy_save :: "pdf_doc \<Rightarrow> pdf_doc \<Rightarrow> thrown + bytes" where
  "toy_save d x =
     (if x = empty_doc then Inr [0x25, 0x50]
      else if x = d then Inr [0x25, 0x51]
      else Inl (JsError (js ''cannot serialize'')))"

definition mem_env :: "pdf_doc \<Rightarrow> mem_store env" where
  "mem_env d =
     \<lparr>BUCKET_NAME = js ''bucket'',
      Date_now = 1700000000000,
      toISOString = (\<lambda>t. js ''2023-11-14T22:13:20.000Z''),
      encodeURIComponent = js_encodeURIComponent,
      PDFDocument_load = toy_load d,
      PDFDocument_save = toy_save d,
      upload_done = mem_upload_done,
      s3Client_send = mem_send,
      import_presigner = None,
      excelSettlesFirst = False\<rparr>"

definition mem_world :: "mem_store world" where
  "mem_world = \<lparr>store = [], calls = [], getSignedUrl = None\<rparr>"

definition a_pdf :: js_file where
  "a_pdf = \<lparr>file_name = js ''a.pdf'', file_size = 2, file_type = js ''application/pdf'',
            file_arrayBuffer = Inr [0x25, 0x50]\<rparr>"

definition a_link :: jsstring where
  "a_link = js ''https://example.com/a''"

text \<open>What \<open>addSourceLinkToPdf\<close> makes of \<open>empty_doc\<close> for \<open>a_pdf\<close> and \<open>a_link\<close>.\<close>

definition a_doc :: pdf_doc where
  "a_doc = \<lparr>doc_title = Some (js ''Document: a.pdf''),
            doc_author = Some (js ''Document Management System''),
            doc_subject = Some (js ''https://example.com/a''),
            doc_producer = Some (js ''DMS Upload Tool''),
            doc_creator = Some (js ''DMS Upload Tool''),
            doc_keywords = Some [js ''source:https://example.com/a'',
                                 js ''upload:2023-11-14T22:13:20.000Z''],
            doc_body = [1, 2, 3]\<rparr>"

definition not_a_pdf :: js_file where
  "not_a_pdf = \<lparr>file_name = js ''notes.pdf'', file_size = 2,
                file_type = js ''application/pdf'', file_arrayBuffer = Inr [0x68, 0x69]\<rparr>"

definition report_pdf :: js_file where
  "report_pdf = \<lparr>file_name = [0x62A5, 0x544A] @ js '' (final)#1.pdf'', file_size = 2,
                 file_type = js ''application/pdf'', file_arrayBuffer = Inr [0x25, 0x50]\<rparr>"

text \<open>What \<open>addSourceLinkToPdf\<close> makes of \<open>empty_doc\<close> for \<open>report_pdf\<close> and \<open>a_link\<close>.\<close>

definition report_doc :: pdf_doc where
  "report_doc = a_doc\<lparr>doc_title := Some (js ''Document: '' @ [0x62A5, 0x544A]
                                         @ js '' (final)#1.pdf'')\<rparr>"


definition AccessDenied :: thrown where
  "AccessDenied = S3ServiceException (js ''AccessDenied'') (js ''Access Denied'')"

text \<open>A backend whose listing of \<open>excel_sheets/\<close> is refused, and one that refuses everything.\<close>

definition excel_listing_fails :: "command \<Rightarrow> mem_store \<Rightarrow> (thrown + response) \<times> mem_store" where
  "excel_listing_fails cmd s =
     (if cmd = ListObjectsV2Command (js ''bucket'') (js ''excel_sheets/'') 1000
      then (Inl AccessDenied, s) else mem_send cmd s)"

definition send_fails :: "thrown \<Rightarrow> command \<Rightarrow> mem_store \<Rightarrow> (thrown + response) \<times> mem_store" where
  "send_fails error cmd s = (Inl error, s)"

text \<open>A signer that only records what it was asked to sign.\<close>

definition toy_sign :: presigner where
  "toy_sign cmd expiresIn =
     (case cmd of
        PutObjectCommand bucket key \<Rightarrow>
          Inr (js ''https://'' @ bucket @ js ''.s3.amazonaws.com/'' @ key
               @ js ''?X-Amz-Expires='' @ toString expiresIn @ js ''&x-id=PutObject'')
      | DeleteObjectCommand bucket key \<Rightarrow>
          Inr (js ''https://'' @ bucket @ js ''.s3.amazonaws.com/'' @ key
               @ js ''?X-Amz-Expires='' @ toString expiresIn @ js ''&x-id=DeleteObject'')
      | ListObjectsV2Command bucket pre maxKeys \<Rightarrow>
          Inr (js ''https://'' @ bucket @ js ''.s3.amazonaws.com/?list-type=2&prefix='' @ pre
               @ js ''&X-Amz-Expires='' @ toString expiresIn @ js ''&x-id=ListObjectsV2''))"

text \<open>The calls that reach the object store, as opposed to the PDF library or the signer.\<close>

fun isBackendCall :: "call \<Rightarrow> bool" where
  "isBackendCall (UploadDone p) = True"
| "isBackendCall (Send c) = True"
| "isBackendCall (PdfLoad b) = False"
| "isBackendCall (PdfSave d) = False"
| "isBackendCall (Presign c n) = False"

section \<open>Auxiliary facts\<close>

lemma js_append: "js (a @ b) = js a @ js b"
  by (simp add: js_def)

lemma toString_100: "toString 100 = js ''100''"
  by (simp add: toString.simps js_def)

lemma startsWith_Nil:
  "\<not> startsWith [] (js ''pdf_files/'')" "\<not> startsWith [] (js ''excel_sheets/'')"
  by (simp_all add: startsWith_def js_def)

lemma validateFileSize_too_large:
  "100 * 1048576 < file_size f \<Longrightarrow>
     validateFileSize f = Inl (JsError (js ''File too large. Maximum size is 100MB.''))"
  by (simp add: validateFileSize_def MAX_FILE_SIZE_MB_def toString_100 js_def)

section \<open>Deletion guard\<close>

text \<open>
  C1. For every key that is empty or starts with neither \<open>pdf_files/\<close> nor
  \<open>excel_sheets/\<close>, \<open>deleteFileFromS3\<close> fails with the error of its guard (the message
  \<open>File key is required\<close> or \<open>Invalid file key format\<close>, wrapped by the catch clause) and
  the world is unchanged: no command is sent. For every key that starts with one of the
  two prefixes it sends the delete command exactly once, and it fails exactly when the
  backend does, with the backend's error wrapped.
\<close>

theorem remove_guard:
  "(fileKey = [] \<or> (\<not> startsWith fileKey (js ''pdf_files/'')
                     \<and> \<not> startsWith fileKey (js ''excel_sheets/''))
      \<longrightarrow> deleteFileFromS3 env fileKey w =
           (Inl (JsError (js ''Failed to delete file: '' @
                   (if fileKey = [] then js ''File key is required''
                    else js ''Invalid file key format''))), w))
   \<and> (startsWith fileKey (js ''pdf_files/'') \<or> startsWith fileKey (js ''excel_sheets/'')
      \<longrightarrow> (case s3Client_send env (DeleteObjectCommand (BUCKET_NAME env) fileKey) (store w) of
            (r, s') \<Rightarrow>
              deleteFileFromS3 env fileKey w =
                ((case r of Inl error \<Rightarrow> Inl (deleteFileFromS3_catch error) | Inr _ \<Rightarrow> Inr ()),
                 w\<lparr>store := s',
                   calls := calls w @ [Send (DeleteObjectCommand (BUCKET_NAME env) fileKey)]\<rparr>)))"
  using startsWith_Nil
  by (auto simp: deleteFileFromS3_def deleteFileFromS3_catch_def send_def
           split: prod.splits sum.splits)

theorem remove_guard_witness:
  "deleteFileFromS3 (mem_env empty_doc) (js ''evil/../../secret'') mem_world
     = (Inl (JsError (js ''Failed to delete file: Invalid file key format'')), mem_world)
   \<and> deleteFileFromS3 (mem_env empty_doc) [] mem_world
     = (Inl (JsError (js ''Failed to delete file: File key is required'')), mem_world)
   \<and> deleteFileFromS3 (mem_env empty_doc) (js ''pdf_files/123-a.pdf'') mem_world
     = (Inr (), mem_world\<lparr>calls :=
          [Send (DeleteObjectCommand (js ''bucket'') (js ''pdf_files/123-a.pdf''))]\<rparr>)
   \<and> deleteFileFromS3 ((mem_env empty_doc)\<lparr>s3Client_send := (\<lambda>c s. (Inl AccessDenied, s))\<rparr>)
         (js ''excel_sheets/1-b.xlsx'') mem_world
     = (Inl (JsError (js ''S3 delete operation failed: AccessDenied - Access Denied'')),
        mem_world\<lparr>calls :=
          [Send (DeleteObjectCommand (js ''bucket'') (js ''excel_sheets/1-b.xlsx''))]\<rparr>)"
  using remove_guard [of "js ''evil/../../secret''" "mem_env empty_doc" mem_world]
        remove_guard [of "[]" "mem_env empty_doc" mem_world]
        remove_guard [of "js ''pdf_files/123-a.pdf''" "mem_env empty_doc" mem_world]
        remove_guard [of "js ''excel_sheets/1-b.xlsx''"
           "(mem_env empty_doc)\<lparr>s3Client_send := (\<lambda>c s. (Inl AccessDenied, s))\<rparr>" mem_world]
  by (simp add: startsWith_def js_def mem_env_def mem_world_def mem_send_def AccessDenied_def
        deleteFileFromS3_catch_def)

text \<open>
  C10. The \<open>deleteFileFromS3\<close> of \<open>src/src/lib/s3.ts\<close> checks nothing: for every key,
  the empty one included, it sends the delete command once, and its only failure is the
  fixed error that replaces a backend failure. On the keys that the guarded variant
  rejects, the guarded variant leaves the world as it was while this one has made a call.
\<close>

theorem lib_delete_has_no_guard:
  "(case s3Client_send env (DeleteObjectCommand (BUCKET_NAME env) fileKey) (store w) of
      (r, s') \<Rightarrow>
        lib_deleteFileFromS3 env fileKey w =
          ((case r of Inl error \<Rightarrow> Inl (JsError (js ''Failed to delete file from S3''))
                    | Inr _ \<Rightarrow> Inr ()),
           w\<lparr>store := s',
             calls := calls w @ [Send (DeleteObjectCommand (BUCKET_NAME env) fileKey)]\<rparr>))
   \<and> (fileKey = [] \<or> (\<not> startsWith fileKey (js ''pdf_files/'')
                        \<and> \<not> startsWith fileKey (js ''excel_sheets/''))
        \<longrightarrow> snd (deleteFileFromS3 env fileKey w) = w
            \<and> calls (snd (lib_deleteFileFromS3 env fileKey w)) \<noteq> calls w)"
  by (auto simp: lib_deleteFileFromS3_def deleteFileFromS3_def send_def
           split: prod.splits sum.splits)

theorem lib_delete_has_no_guard_witness:
  "lib_deleteFileFromS3 (mem_env empty_doc) (js ''evil/../../secret'') mem_world
     = (Inr (), mem_world\<lparr>calls :=
          [Send (DeleteObjectCommand (js ''bucket'') (js ''evil/../../secret''))]\<rparr>)
   \<and> lib_deleteFileFromS3 (mem_env empty_doc) [] mem_world
     = (Inr (), mem_world\<lparr>calls := [Send (DeleteObjectCommand (js ''bucket'') [])]\<rparr>)
   \<and> snd (deleteFileFromS3 (mem_env empty_doc) (js ''evil/../../secret'') mem_world) = mem_world
   \<and> snd (deleteFileFromS3 (mem_env empty_doc) [] mem_world) = mem_world"
  using lib_delete_has_no_guard [of "mem_env empty_doc" "js ''evil/../../secret''" mem_world]
        lib_delete_has_no_guard [of "mem_env empty_doc" "[]" mem_world]
  by (simp add: startsWith_def js_def mem_env_def mem_world_def mem_send_def)

section \<open>Size validation\<close>

text \<open>
  C2. The limit is 100 MB. For every file whose size exceeds \<open>100 * 1048576\<close> bytes,
  \<open>validateFileSize\<close> fails, and both uploads fail with that error (wrapped by their catch
  clause) in an unchanged world: nothing is put, no command is sent, and the PDF library
  is not called.
\<close>

theorem oversize_rejected_before_any_call:
  "file_size f > 100 * 1048576 \<Longrightarrow>
     MAX_FILE_SIZE_MB = 100
     \<and> validateFileSize f = Inl (JsError (js ''File too large. Maximum size is 100MB.''))
     \<and> uploadPdfToS3 env f sourceLink w =
         (Inl (JsError (js ''Failed to upload PDF: File too large. Maximum size is 100MB.'')), w)
     \<and> uploadExcelToS3 env f w =
         (Inl (JsError (js ''Failed to upload Excel: File too large. Maximum size is 100MB.'')), w)"
  by (simp add: validateFileSize_too_large uploadPdfToS3_def uploadExcelToS3_def
        uploadPdfToS3_catch_def uploadExcelToS3_catch_def MAX_FILE_SIZE_MB_def js_def)

theorem oversize_rejected_before_any_call_witness:
  "file_size \<lparr>file_name = js ''big.pdf'', file_size = 104857601,
              file_type = js ''application/pdf'', file_arrayBuffer = Inr [0x25, 0x50]\<rparr>
     > 100 * 1048576
   \<and> uploadPdfToS3 (mem_env empty_doc)
        \<lparr>file_name = js ''big.pdf'', file_size = 104857601,
         file_type = js ''application/pdf'', file_arrayBuffer = Inr [0x25, 0x50]\<rparr>
        (js ''https://example.com/a'') mem_world
     = (Inl (JsError (js ''Failed to upload PDF: File too large. Maximum size is 100MB.'')),
        mem_world)
   \<and> uploadExcelToS3 (mem_env empty_doc)
        \<lparr>file_name = js ''big.pdf'', file_size = 104857601,
         file_type = js ''application/pdf'', file_arrayBuffer = Inr [0x25, 0x50]\<rparr>
        mem_world
     = (Inl (JsError (js ''Failed to upload Excel: File too large. Maximum size is 100MB.'')),
        mem_world)"
  using oversize_rejected_before_any_call
    [of "\<lparr>file_name = js ''big.pdf'', file_size = 104857601,
          file_type = js ''application/pdf'', file_arrayBuffer = Inr [0x25, 0x50]\<rparr>"
        "mem_env empty_doc" "js ''https://example.com/a''" mem_world]
  by simp

section \<open>Metadata embedding and the put\<close>

lemma addSourceLinkToPdf_catch_msg:
  "\<exists>m. addSourceLinkToPdf_catch error = JsError (js ''Failed to modify PDF metadata'' @ m)"
  by (cases error) (simp_all add: addSourceLinkToPdf_catch_def js_def)

lemma addSourceLinkToPdf_cases:
  assumes "addSourceLinkToPdf env f l w = (r, w1)"
  shows "(\<exists>b d out. r = Inr out \<and> w1 = w\<lparr>calls := calls w @ [PdfLoad b, PdfSave (setMetadata env f l d)]\<rparr>
            \<and> file_arrayBuffer f = Inr b \<and> PDFDocument_load env b = Inr d
            \<and> PDFDocument_save env (setMetadata env f l d) = Inr out)
       \<or> (\<exists>m. r = Inl (JsError (js ''Failed to modify PDF metadata'' @ m))
            \<and> store w1 = store w
            \<and> filter isBackendCall (calls w1) = filter isBackendCall (calls w))"
proof (cases "file_arrayBuffer f")
  case (Inl e)
  then show ?thesis
    using assms addSourceLinkToPdf_catch_msg [of e]
    by (auto simp: addSourceLinkToPdf_def)
next
  case b: (Inr b)
  show ?thesis
  proof (cases "PDFDocument_load env b")
    case (Inl e)
    then show ?thesis
      using assms b addSourceLinkToPdf_catch_msg [of e]
      by (auto simp: addSourceLinkToPdf_def)
  next
    case d: (Inr d)
    show ?thesis
    proof (cases "PDFDocument_save env (setMetadata env f l d)")
      case (Inl e)
      then show ?thesis
        using assms b d addSourceLinkToPdf_catch_msg [of e]
        by (auto simp: addSourceLinkToPdf_def)
    next
      case (Inr out)
      then have "r = Inr out"
        and "w1 = w\<lparr>calls := calls w @ [PdfLoad b, PdfSave (setMetadata env f l d)]\<rparr>"
        using assms b d by (auto simp: addSourceLinkToPdf_def)
      then show ?thesis
        using b d Inr by blast
    qed
  qed
qed

lemma uploadPdfToS3_catch_embed:
  "\<exists>m'. uploadPdfToS3_catch (JsError (js ''Failed to modify PDF metadata'' @ m))
      = JsError (js ''Failed to upload PDF: Failed to modify PDF metadata'' @ m')"
  by (simp add: uploadPdfToS3_catch_def js_def)

lemma uploadPdfToS3_runs:
  "case uploadPdfToS3 env pdfFile sourceLink w of (r, w') \<Rightarrow>
     (\<exists>b d p out. calls w' = calls w @ [PdfLoad b, PdfSave d, UploadDone p]
        \<and> Body p = Uint8Array out
        \<and> addSourceLinkToPdf env pdfFile sourceLink w
            = (Inr out, w\<lparr>calls := calls w @ [PdfLoad b, PdfSave d]\<rparr>))
     \<or> (isl r \<and> store w' = store w
         \<and> filter isBackendCall (calls w') = filter isBackendCall (calls w))"
proof (cases "addSourceLinkToPdf env pdfFile sourceLink w")
  case (Pair r1 w1)
  from addSourceLinkToPdf_cases [OF Pair] show ?thesis
  proof
    assume "\<exists>b d out. r1 = Inr out
        \<and> w1 = w\<lparr>calls := calls w @ [PdfLoad b, PdfSave (setMetadata env pdfFile sourceLink d)]\<rparr>
        \<and> file_arrayBuffer pdfFile = Inr b \<and> PDFDocument_load env b = Inr d
        \<and> PDFDocument_save env (setMetadata env pdfFile sourceLink d) = Inr out"
    then show ?thesis
      using Pair
      by (auto simp: uploadPdfToS3_def Upload_done_def Let_def js_def
               split: sum.splits prod.splits option.splits)
  next
    assume "\<exists>m. r1 = Inl (JsError (js ''Failed to modify PDF metadata'' @ m))
        \<and> store w1 = store w
        \<and> filter isBackendCall (calls w1) = filter isBackendCall (calls w)"
    then show ?thesis
      using Pair
      by (auto simp: uploadPdfToS3_def Let_def split: sum.splits)
  qed
qed

lemma uploadPdfToS3_embed_fails:
  assumes "addSourceLinkToPdf env pdfFile sourceLink w = (Inl error, w1)"
  shows "\<exists>e w'. uploadPdfToS3 env pdfFile sourceLink w = (Inl e, w')
           \<and> store w' = store w
           \<and> filter isBackendCall (calls w') = filter isBackendCall (calls w)
           \<and> (file_size pdfFile \<le> 100 * 1048576 \<longrightarrow>
                w' = w1 \<and> e = uploadPdfToS3_catch error
                \<and> (\<exists>m. e = JsError (js ''Failed to upload PDF: Failed to modify PDF metadata'' @ m)))"
proof -
  from addSourceLinkToPdf_cases [OF assms] obtain m where
    m: "error = JsError (js ''Failed to modify PDF metadata'' @ m)"
    and st: "store w1 = store w"
    and cs: "filter isBackendCall (calls w1) = filter isBackendCall (calls w)"
    by auto
  show ?thesis
  proof (cases "file_size pdfFile \<le> 100 * 1048576")
    case True
    then have v: "validateFileSize pdfFile = Inr True"
      by (simp add: validateFileSize_def MAX_FILE_SIZE_MB_def)
    have "uploadPdfToS3 env pdfFile sourceLink w = (Inl (uploadPdfToS3_catch error), w1)"
      using assms v by (simp add: uploadPdfToS3_def js_def)
    then show ?thesis
      using st cs m uploadPdfToS3_catch_embed [of m] by auto
  next
    case False
    then have "validateFileSize pdfFile
        = Inl (JsError (js ''File too large. Maximum size is 100MB.''))"
      by (simp add: validateFileSize_too_large)
    then have "uploadPdfToS3 env pdfFile sourceLink w
        = (Inl (uploadPdfToS3_catch (JsError (js ''File too large. Maximum size is 100MB.''))), w)"
      by (simp add: uploadPdfToS3_def js_def)
    then show ?thesis using False by auto
  qed
qed

text \<open>
  C3. In \<open>uploadPdfToS3\<close> the metadata step comes before the put. Every run either
  records exactly a load, a save and then the put, the put carrying the bytes that
  \<open>addSourceLinkToPdf\<close> returned, or fails with the store as it was and no call to the
  backend. In particular, whenever \<open>addSourceLinkToPdf\<close> fails on the input, the upload
  fails, the store is unchanged and nothing was put; for a file within the size limit
  the failure is the metadata error, wrapped.
\<close>

theorem embedding_precedes_put:
  "(case uploadPdfToS3 env pdfFile sourceLink w of (r, w') \<Rightarrow>
     (\<exists>b d p out. calls w' = calls w @ [PdfLoad b, PdfSave d, UploadDone p]
        \<and> Body p = Uint8Array out
        \<and> addSourceLinkToPdf env pdfFile sourceLink w
            = (Inr out, w\<lparr>calls := calls w @ [PdfLoad b, PdfSave d]\<rparr>))
     \<or> (isl r \<and> store w' = store w
         \<and> filter isBackendCall (calls w') = filter isBackendCall (calls w)))
   \<and> (\<forall>error w1. addSourceLinkToPdf env pdfFile sourceLink w = (Inl error, w1) \<longrightarrow>
        (\<exists>e w'. uploadPdfToS3 env pdfFile sourceLink w = (Inl e, w')
           \<and> store w' = store w
           \<and> filter isBackendCall (calls w') = filter isBackendCall (calls w)
           \<and> (file_size pdfFile \<le> 100 * 1048576 \<longrightarrow>
                w' = w1 \<and> e = uploadPdfToS3_catch error
                \<and> (\<exists>m. e = JsError (js ''Failed to upload PDF: Failed to modify PDF metadata'' @ m)))))"
  using uploadPdfToS3_runs [where env = env and pdfFile = pdfFile and sourceLink = sourceLink
          and w = w]
        uploadPdfToS3_embed_fails [where env = env and pdfFile = pdfFile
          and sourceLink = sourceLink and w = w]
  by blast

lemma toString_ts: "toString 1700000000000 = js ''1700000000000''"
  by (simp add: toString.simps js_def)

lemma run_not_a_pdf:
  "addSourceLinkToPdf (mem_env a_doc) not_a_pdf a_link mem_world
     = (Inl (JsError (js ''Failed to modify PDF metadata: No PDF header found'')),
        mem_world\<lparr>calls := [PdfLoad [0x68, 0x69]]\<rparr>)"
  by (simp add: addSourceLinkToPdf_def not_a_pdf_def mem_env_def toy_load_def
        addSourceLinkToPdf_catch_def mem_world_def js_def)

theorem embedding_precedes_put_witness:
  "addSourceLinkToPdf (mem_env a_doc) not_a_pdf a_link mem_world
     = (Inl (JsError (js ''Failed to modify PDF metadata: No PDF header found'')),
        mem_world\<lparr>calls := [PdfLoad [0x68, 0x69]]\<rparr>)
   \<and> file_size not_a_pdf \<le> 100 * 1048576
   \<and> uploadPdfToS3 (mem_env a_doc) not_a_pdf a_link mem_world
     = (Inl (JsError (js
          ''Failed to upload PDF: Failed to modify PDF metadata: No PDF header found'')),
        mem_world\<lparr>calls := [PdfLoad [0x68, 0x69]]\<rparr>)"
proof -
  have sz: "file_size not_a_pdf \<le> 100 * 1048576"
    by (simp add: not_a_pdf_def)
  from embedding_precedes_put [where env = "mem_env a_doc" and pdfFile = not_a_pdf
      and sourceLink = a_link and w = mem_world] run_not_a_pdf sz
  obtain e w' where "uploadPdfToS3 (mem_env a_doc) not_a_pdf a_link mem_world = (Inl e, w')"
    and "w' = mem_world\<lparr>calls := [PdfLoad [0x68, 0x69]]\<rparr>"
    and "e = uploadPdfToS3_catch
               (JsError (js ''Failed to modify PDF metadata: No PDF header found''))"
    by blast
  then show ?thesis
    using run_not_a_pdf sz by (simp add: uploadPdfToS3_catch_def js_def)
qed

section \<open>Listing\<close>

lemma listFilesFromS3_catch_msg: "\<exists>m. listFilesFromS3_catch error = JsError m"
  by (cases error) (simp_all add: listFilesFromS3_catch_def)

text \<open>
  C4. \<open>listFilesFromS3\<close> sends both listing commands. If either of the two outcomes is a
  failure, the call fails with one error, made from one of the failures, and returns no
  list; it returns a list only when both listings succeeded, and then the list has the
  entries of both.
\<close>

theorem list_is_all_or_nothing:
  assumes "send env (ListObjectsV2Command (BUCKET_NAME env) (js ''pdf_files/'') 1000) w
             = (pdfSettled, w1)"
      and "send env (ListObjectsV2Command (BUCKET_NAME env) (js ''excel_sheets/'') 1000) w1
             = (excelSettled, w2)"
  shows "(isl pdfSettled \<or> isl excelSettled \<longrightarrow>
            (\<exists>error m. (pdfSettled = Inl error \<or> excelSettled = Inl error)
               \<and> listFilesFromS3_catch error = JsError m
               \<and> listFilesFromS3 env w = (Inl (JsError m), w2)))
       \<and> (\<not> isl pdfSettled \<and> \<not> isl excelSettled \<longrightarrow>
            listFilesFromS3 env w =
              (Inr (map (toFileInfo env ''pdf'')
                      (filter isPdfItem (contentsOrEmpty (projr pdfSettled)))
                    @ map (toFileInfo env ''excel'')
                        (filter isExcelItem (contentsOrEmpty (projr excelSettled)))), w2))"
proof (cases pdfSettled; cases excelSettled)
  fix e1 e2 assume "pdfSettled = Inl e1" "excelSettled = Inl e2"
  then show ?thesis
    using assms listFilesFromS3_catch_msg [of e1] listFilesFromS3_catch_msg [of e2]
    by (auto simp: listFilesFromS3_def)
next
  fix e1 r2 assume "pdfSettled = Inl e1" "excelSettled = Inr r2"
  then show ?thesis
    using assms listFilesFromS3_catch_msg [of e1]
    by (auto simp: listFilesFromS3_def)
next
  fix r1 e2 assume "pdfSettled = Inr r1" "excelSettled = Inl e2"
  then show ?thesis
    using assms listFilesFromS3_catch_msg [of e2]
    by (auto simp: listFilesFromS3_def)
next
  fix r1 r2 assume "pdfSettled = Inr r1" "excelSettled = Inr r2"
  then show ?thesis
    using assms by (simp add: listFilesFromS3_def)
qed


lemma run_pdf_listing:
  "send ((mem_env a_doc)\<lparr>s3Client_send := excel_listing_fails\<rparr>)
        (ListObjectsV2Command (js ''bucket'') (js ''pdf_files/'') 1000)
        (mem_world\<lparr>store := [(js ''pdf_files/1-a.pdf'', [0x25, 0x50])]\<rparr>)
     = (Inr \<lparr>Contents = Some [\<lparr>obj_Key = Some (js ''pdf_files/1-a.pdf''),
                                 obj_Size = Some 2, obj_LastModified = None\<rparr>]\<rparr>,
        mem_world\<lparr>store := [(js ''pdf_files/1-a.pdf'', [0x25, 0x50])],
                  calls := [Send (ListObjectsV2Command (js ''bucket'') (js ''pdf_files/'') 1000)]\<rparr>)"
  by (simp add: send_def mem_env_def mem_world_def excel_listing_fails_def mem_send_def
        startsWith_def js_def)

lemma run_excel_listing:
  "send ((mem_env a_doc)\<lparr>s3Client_send := excel_listing_fails\<rparr>)
        (ListObjectsV2Command (js ''bucket'') (js ''excel_sheets/'') 1000)
        (mem_world\<lparr>store := [(js ''pdf_files/1-a.pdf'', [0x25, 0x50])],
                  calls := [Send (ListObjectsV2Command (js ''bucket'') (js ''pdf_files/'') 1000)]\<rparr>)
     = (Inl AccessDenied,
        mem_world\<lparr>store := [(js ''pdf_files/1-a.pdf'', [0x25, 0x50])],
                  calls := [Send (ListObjectsV2Command (js ''bucket'') (js ''pdf_files/'') 1000),
                            Send (ListObjectsV2Command (js ''bucket'') (js ''excel_sheets/'') 1000)]\<rparr>)"
  by (simp add: send_def mem_env_def mem_world_def excel_listing_fails_def)

lemma bucket_name: "BUCKET_NAME ((mem_env d)\<lparr>s3Client_send := f\<rparr>) = js ''bucket''"
  "BUCKET_NAME (mem_env d) = js ''bucket''"
  by (simp_all add: mem_env_def)

theorem list_is_all_or_nothing_witness:
  "listFilesFromS3 ((mem_env a_doc)\<lparr>s3Client_send := excel_listing_fails\<rparr>)
        (mem_world\<lparr>store := [(js ''pdf_files/1-a.pdf'', [0x25, 0x50])]\<rparr>)
     = (Inl (JsError (js ''S3 list operation failed: AccessDenied - Access Denied'')),
        mem_world\<lparr>store := [(js ''pdf_files/1-a.pdf'', [0x25, 0x50])],
                  calls := [Send (ListObjectsV2Command (js ''bucket'') (js ''pdf_files/'') 1000),
                            Send (ListObjectsV2Command (js ''bucket'') (js ''excel_sheets/'') 1000)]\<rparr>)"
proof -
  let ?env = "(mem_env a_doc)\<lparr>s3Client_send := excel_listing_fails\<rparr>"
  have b: "BUCKET_NAME ?env = js ''bucket''" by (rule bucket_name)
  from list_is_all_or_nothing [where env = ?env, unfolded b, OF run_pdf_listing run_excel_listing]
  obtain error m where "Inr \<lparr>Contents = Some [\<lparr>obj_Key = Some (js ''pdf_files/1-a.pdf''),
                                 obj_Size = Some 2, obj_LastModified = None\<rparr>]\<rparr> = Inl error
       \<or> Inl AccessDenied = Inl error"
    and "listFilesFromS3_catch error = JsError m"
    and "listFilesFromS3 ?env (mem_world\<lparr>store := [(js ''pdf_files/1-a.pdf'', [0x25, 0x50])]\<rparr>)
          = (Inl (JsError m),
             mem_world\<lparr>store := [(js ''pdf_files/1-a.pdf'', [0x25, 0x50])],
                  calls := [Send (ListObjectsV2Command (js ''bucket'') (js ''pdf_files/'') 1000),
                            Send (ListObjectsV2Command (js ''bucket'') (js ''excel_sheets/'') 1000)]\<rparr>)"
    by auto
  then show ?thesis
    by (auto simp: listFilesFromS3_catch_def AccessDenied_def js_def)
qed

section \<open>Key naming\<close>




lemma sanitizeName_length: "length (sanitizeName name) = length name"
  by (simp add: sanitizeName_def)

lemma uploadPdfToS3_key:
  assumes "uploadPdfToS3 env f sourceLink w = (Inr k, w')"
  shows "k = js ''pdf_files/'' @ toString (Date_now env) @ js ''-'' @ sanitizeName (file_name f)
       \<and> (\<exists>p. last (calls w') = UploadDone p \<and> Key p = k)"
  using assms
  by (auto simp: uploadPdfToS3_def Upload_done_def Let_def
           split: sum.splits prod.splits option.splits if_splits)


lemma setMetadata_a: "setMetadata (mem_env d) a_pdf a_link empty_doc = a_doc"
  by (simp add: setMetadata_def mem_env_def a_pdf_def a_link_def empty_doc_def a_doc_def js_def)

lemma a_doc_neq: "a_doc \<noteq> empty_doc"
  by (simp add: a_doc_def empty_doc_def)

lemma run_embed_a:
  "addSourceLinkToPdf (mem_env a_doc) a_pdf a_link mem_world
     = (Inr [0x25, 0x51], mem_world\<lparr>calls := [PdfLoad [0x25, 0x50], PdfSave a_doc]\<rparr>)"
proof -
  have "file_arrayBuffer a_pdf = Inr [0x25, 0x50]"
    by (simp add: a_pdf_def)
  moreover have "PDFDocument_load (mem_env a_doc) [0x25, 0x50] = Inr empty_doc"
    by (simp add: mem_env_def toy_load_def)
  moreover have "PDFDocument_save (mem_env a_doc) a_doc = Inr [0x25, 0x51]"
    using a_doc_neq by (simp add: mem_env_def toy_save_def)
  ultimately show ?thesis
    by (simp add: addSourceLinkToPdf_def setMetadata_a mem_world_def)
qed

lemma toString_2: "toString 2 = js ''2''" "toString 3 = js ''3''"
  by (simp_all add: toString.simps js_def)



lemma setMetadata_report: "setMetadata (mem_env d) report_pdf a_link empty_doc = report_doc"
  by (simp add: setMetadata_def mem_env_def report_pdf_def a_link_def empty_doc_def a_doc_def
        report_doc_def js_def)

lemma report_doc_neq: "report_doc \<noteq> empty_doc"
  by (simp add: report_doc_def a_doc_def empty_doc_def)

lemma run_embed_report:
  "addSourceLinkToPdf (mem_env report_doc) report_pdf a_link mem_world
     = (Inr [0x25, 0x51], mem_world\<lparr>calls := [PdfLoad [0x25, 0x50], PdfSave report_doc]\<rparr>)"
proof -
  have "file_arrayBuffer report_pdf = Inr [0x25, 0x50]"
    by (simp add: report_pdf_def)
  moreover have "PDFDocument_load (mem_env report_doc) [0x25, 0x50] = Inr empty_doc"
    by (simp add: mem_env_def toy_load_def)
  moreover have "PDFDocument_save (mem_env report_doc) report_doc = Inr [0x25, 0x51]"
    using report_doc_neq by (simp add: mem_env_def toy_save_def)
  ultimately show ?thesis
    by (simp add: addSourceLinkToPdf_def setMetadata_report mem_world_def)
qed

lemma run_upload_report:
  "uploadPdfToS3 (mem_env report_doc) report_pdf a_link mem_world
     = (Inr (js ''pdf_files/1700000000000-____final__1.pdf''),
        \<lparr>store = [(js ''pdf_files/1700000000000-____final__1.pdf'', [0x25, 0x51])],
         calls = [PdfLoad [0x25, 0x50], PdfSave report_doc,
                  UploadDone
                    \<lparr>Bucket = js ''major-project-margdarshak'',
                     Key = js ''pdf_files/1700000000000-____final__1.pdf'',
                     Body = Uint8Array [0x25, 0x51],
                     ContentType = js ''application/pdf'',
                     ContentDisposition =
                       js ''attachment; filename='' @ [0x22] @ js ''____final__1.pdf'' @ [0x22],
                     Metadata = [(''sourceLink'', js ''https%3A%2F%2Fexample.com%2Fa''),
                                 (''originalName'', js ''%E6%8A%A5%E5%91%8A%20(final)%231.pdf''),
                                 (''uploadTimestamp'', js ''1700000000000''),
                                 (''fileSize'', js ''2'')]\<rparr>],
         getSignedUrl = None\<rparr>)"
proof -
  have v: "validateFileSize report_pdf = Inr True"
    by (simp add: validateFileSize_def report_pdf_def MAX_FILE_SIZE_MB_def)
  have n: "file_name report_pdf = [0x62A5, 0x544A] @ js '' (final)#1.pdf''"
      "file_size report_pdf = 2"
    by (simp_all add: report_pdf_def)
  have e: "encodeURIComponent (mem_env report_doc) = js_encodeURIComponent"
       "Date_now (mem_env report_doc) = 1700000000000"
       "upload_done (mem_env report_doc) = mem_upload_done"
    by (simp_all add: mem_env_def)
  have b: "js ''major-project-margdarshak'' \<noteq> []"
    by (simp add: js_def)
  show ?thesis
    using run_embed_report
    by (simp add: uploadPdfToS3_def b v n e a_link_def uriUnescaped_def percent_def utf8_def
          hexDigit_def sanitizeName_def allowedChar_def toString_ts toString_2 Upload_done_def
          mem_upload_done_def mem_world_def js_def Let_def)
qed

text \<open>The key stated for this upload, with three underscores, is not what the code returns.\<close>

theorem report_key_counterexample:
  "fst (uploadPdfToS3 (mem_env report_doc) report_pdf a_link mem_world)
     \<noteq> Inr (js ''pdf_files/1700000000000-___final__1.pdf'')"
  by (simp add: run_upload_report js_def)

text \<open>
  C5. For the file name \<open>U+62A5 U+544A\<close> followed by \<open> (final)#1.pdf\<close> and
  the timestamp 1700000000000, a successful PDF upload returns the key
  \<open>pdf_files/1700000000000-____final__1.pdf\<close>: four underscores before \<open>final\<close>, one
  for each of the two ideographs, the space and the opening parenthesis. Sanitizing
  replaces code unit by code unit: the length is kept, and position \<open>i\<close> holds the
  original code unit if it is allowed and an underscore otherwise. The key with three
  underscores is not the one produced.
\<close>

theorem report_key:
  "(file_name f = [0x62A5, 0x544A] @ js '' (final)#1.pdf'' \<and> Date_now env = 1700000000000
      \<and> uploadPdfToS3 env f sourceLink w = (Inr k, w')
      \<longrightarrow> k = js ''pdf_files/1700000000000-____final__1.pdf'')
   \<and> length (sanitizeName name) = length name
   \<and> (\<forall>i < length name.
         sanitizeName name ! i = (if allowedChar (name ! i) then name ! i else 0x5F))"
proof -
  have "sanitizeName ([0x62A5, 0x544A] @ js '' (final)#1.pdf'') = js ''____final__1.pdf''"
    by (simp add: sanitizeName_def allowedChar_def js_def)
  then show ?thesis
    using uploadPdfToS3_key [where env = env and f = f and sourceLink = sourceLink and w = w
            and k = k and w' = w']
    by (auto simp: toString_ts js_append [symmetric] sanitizeName_def)
qed

theorem report_key_witness:
  "file_name report_pdf = [0x62A5, 0x544A] @ js '' (final)#1.pdf''
   \<and> Date_now (mem_env report_doc) = 1700000000000
   \<and> fst (uploadPdfToS3 (mem_env report_doc) report_pdf a_link mem_world)
       = Inr (js ''pdf_files/1700000000000-____final__1.pdf'')
   \<and> length (sanitizeName (file_name report_pdf)) = 16
   \<and> sanitizeName (file_name report_pdf) ! 0 = 0x5F"
  using report_key [where f = report_pdf and env = "mem_env report_doc" and sourceLink = a_link
          and w = mem_world and name = "file_name report_pdf"
          and k = "js ''pdf_files/1700000000000-____final__1.pdf''"]
        run_upload_report
  by (simp add: report_pdf_def mem_env_def allowedChar_def js_def)

section \<open>Provenance metadata\<close>

lemma toy_roundtrip: "toy_save d x = Inr out \<Longrightarrow> toy_load d out = Inr x"
  by (auto simp: toy_save_def toy_load_def split: if_splits)

lemma addSourceLinkToPdf_parseable:
  assumes "file_arrayBuffer pdfFile = Inr b" and "PDFDocument_load env b = Inr d"
  shows "addSourceLinkToPdf env pdfFile sourceLink w =
           ((case PDFDocument_save env (setMetadata env pdfFile sourceLink d) of
               Inl error \<Rightarrow> Inl (addSourceLinkToPdf_catch error)
             | Inr out \<Rightarrow> Inr out),
            w\<lparr>calls := calls w @ [PdfLoad b, PdfSave (setMetadata env pdfFile sourceLink d)]\<rparr>)"
  using assms by (simp add: addSourceLinkToPdf_def split: sum.splits)

text \<open>
  C7. For every file whose bytes the PDF library parses, and every source link,
  \<open>addSourceLinkToPdf\<close> hands to the serializer the parsed document with the subject set
  to the source link verbatim, the keywords set to \<open>source:\<close> followed by the link and
  \<open>upload:\<close> followed by the ISO rendering of the current time, the title set to
  \<open>Document: \<close> followed by the file name, author, producer and creator set to their
  fixed tags, and the body untouched; it returns what the serializer returns for that
  document (or the serializer's failure, wrapped). With a library that reads back what it
  has written, the returned bytes parse to a document with that subject, title and
  keywords.
\<close>

theorem embedProvenance:
  assumes "file_arrayBuffer pdfFile = Inr b" and "PDFDocument_load env b = Inr d"
  shows "doc_subject (setMetadata env pdfFile sourceLink d) = Some sourceLink
       \<and> doc_keywords (setMetadata env pdfFile sourceLink d)
           = Some [js ''source:'' @ sourceLink, js ''upload:'' @ toISOString env (Date_now env)]
       \<and> doc_title (setMetadata env pdfFile sourceLink d)
           = Some (js ''Document: '' @ file_name pdfFile)
       \<and> doc_author (setMetadata env pdfFile sourceLink d)
           = Some (js ''Document Management System'')
       \<and> doc_producer (setMetadata env pdfFile sourceLink d) = Some (js ''DMS Upload Tool'')
       \<and> doc_creator (setMetadata env pdfFile sourceLink d) = Some (js ''DMS Upload Tool'')
       \<and> doc_body (setMetadata env pdfFile sourceLink d) = doc_body d
       \<and> addSourceLinkToPdf env pdfFile sourceLink w =
           ((case PDFDocument_save env (setMetadata env pdfFile sourceLink d) of
               Inl error \<Rightarrow> Inl (addSourceLinkToPdf_catch error)
             | Inr out \<Rightarrow> Inr out),
            w\<lparr>calls := calls w @ [PdfLoad b, PdfSave (setMetadata env pdfFile sourceLink d)]\<rparr>)
       \<and> ((\<forall>x out. PDFDocument_save env x = Inr out \<longrightarrow> PDFDocument_load env out = Inr x) \<longrightarrow>
           (\<forall>out w'. addSourceLinkToPdf env pdfFile sourceLink w = (Inr out, w') \<longrightarrow>
              (\<exists>d' ks. PDFDocument_load env out = Inr d'
                 \<and> doc_subject d' = Some sourceLink
                 \<and> doc_title d' = Some (js ''Document: '' @ file_name pdfFile)
                 \<and> doc_keywords d' = Some ks
                 \<and> js ''source:'' @ sourceLink \<in> set ks
                 \<and> js ''upload:'' @ toISOString env (Date_now env) \<in> set ks)))"
proof -
  let ?d = "setMetadata env pdfFile sourceLink d"
  have fields: "doc_subject ?d = Some sourceLink"
    "doc_keywords ?d
       = Some [js ''source:'' @ sourceLink, js ''upload:'' @ toISOString env (Date_now env)]"
    "doc_title ?d = Some (js ''Document: '' @ file_name pdfFile)"
    "doc_author ?d = Some (js ''Document Management System'')"
    "doc_producer ?d = Some (js ''DMS Upload Tool'')"
    "doc_creator ?d = Some (js ''DMS Upload Tool'')"
    "doc_body ?d = doc_body d"
    by (simp_all add: setMetadata_def)
  note run = addSourceLinkToPdf_parseable [OF assms, of sourceLink w]
  have "\<exists>d' ks. PDFDocument_load env out = Inr d'
          \<and> doc_subject d' = Some sourceLink
          \<and> doc_title d' = Some (js ''Document: '' @ file_name pdfFile)
          \<and> doc_keywords d' = Some ks
          \<and> js ''source:'' @ sourceLink \<in> set ks
          \<and> js ''upload:'' @ toISOString env (Date_now env) \<in> set ks"
    if rt: "\<forall>x out. PDFDocument_save env x = Inr out \<longrightarrow> PDFDocument_load env out = Inr x"
      and ok: "addSourceLinkToPdf env pdfFile sourceLink w = (Inr out, w')"
    for out w'
  proof -
    from ok run have "PDFDocument_save env ?d = Inr out"
      by (auto split: sum.splits)
    with rt have "PDFDocument_load env out = Inr ?d"
      by blast
    then show ?thesis
      using fields by simp
  qed
  then show ?thesis
    using fields run by blast
qed

theorem embedProvenance_witness:
  "file_arrayBuffer a_pdf = Inr [0x25, 0x50]
   \<and> PDFDocument_load (mem_env a_doc) [0x25, 0x50] = Inr empty_doc
   \<and> addSourceLinkToPdf (mem_env a_doc) a_pdf (js ''https://example.com/a'') mem_world
       = (Inr [0x25, 0x51], mem_world\<lparr>calls := [PdfLoad [0x25, 0x50], PdfSave a_doc]\<rparr>)
   \<and> PDFDocument_load (mem_env a_doc) [0x25, 0x51] = Inr a_doc
   \<and> doc_subject a_doc = Some (js ''https://example.com/a'')
   \<and> js ''source:https://example.com/a'' \<in> set (the (doc_keywords a_doc))"
proof -
  have b: "file_arrayBuffer a_pdf = Inr [0x25, 0x50]"
    by (simp add: a_pdf_def)
  have d: "PDFDocument_load (mem_env a_doc) [0x25, 0x50] = Inr empty_doc"
    by (simp add: mem_env_def toy_load_def)
  have rt: "\<forall>x out. PDFDocument_save (mem_env a_doc) x = Inr out
              \<longrightarrow> PDFDocument_load (mem_env a_doc) out = Inr x"
    using toy_roundtrip by (simp add: mem_env_def)
  have run: "addSourceLinkToPdf (mem_env a_doc) a_pdf (js ''https://example.com/a'') mem_world
       = (Inr [0x25, 0x51], mem_world\<lparr>calls := [PdfLoad [0x25, 0x50], PdfSave a_doc]\<rparr>)"
    using run_embed_a by (simp add: a_link_def)
  from embedProvenance [OF b d, of "js ''https://example.com/a''" mem_world] rt run
  obtain d' ks where "PDFDocument_load (mem_env a_doc) [0x25, 0x51] = Inr d'"
    and "doc_subject d' = Some (js ''https://example.com/a'')"
    and "doc_keywords d' = Some ks"
    and "js ''source:'' @ js ''https://example.com/a'' \<in> set ks"
    by blast
  moreover have "PDFDocument_load (mem_env a_doc) [0x25, 0x51] = Inr a_doc"
    by (simp add: mem_env_def toy_load_def)
  ultimately show ?thesis
    using b d run by (auto simp: js_def)
qed

section \<open>Presigning\<close>

lemma getPresignedUrl_fallback:
  "import_presigner env = None \<Longrightarrow> getSignedUrl w = None \<Longrightarrow>
     getPresignedUrl env fileKey expiresInArg w
       = (Inr (js ''https://'' @ BUCKET_NAME env @ js ''.s3.amazonaws.com/'' @ fileKey), w)"
  by (simp add: getPresignedUrl_def)

lemma getPresignedUrl_signed:
  "import_presigner env = Some sign \<Longrightarrow>
     getPresignedUrl env fileKey None w
       = ((case sign (PutObjectCommand (BUCKET_NAME env) fileKey) 3600 of
             Inl error \<Rightarrow> Inl (getPresignedUrl_catch error) | Inr url \<Rightarrow> Inr url),
          w\<lparr>getSignedUrl := Some sign,
            calls := calls w @ [Presign (PutObjectCommand (BUCKET_NAME env) fileKey) 3600]\<rparr>)"
  by (simp add: getPresignedUrl_def split: sum.splits)

lemma toString_3600: "toString 3600 = js ''3600''"
  by (simp add: toString.simps js_def)

text \<open>
  C8. With no second argument the expiry is 3600 seconds. When the signer can be
  imported, \<open>getPresignedUrl\<close> asks it to sign a \<open>PutObjectCommand\<close> for the key, so the
  URL it returns is the signer's URL for putting the object, not for getting it. When
  the signer cannot be imported and none was imported before, the call succeeds with
  \<open>https://{bucket}.s3.amazonaws.com/{key}\<close> and makes no call.
\<close>

theorem presign_signs_a_put:
  "getPresignedUrl ((mem_env a_doc)\<lparr>import_presigner := Some toy_sign\<rparr>)
       (js ''pdf_files/123-a.pdf'') None mem_world
     = (Inr (js
         ''https://bucket.s3.amazonaws.com/pdf_files/123-a.pdf?X-Amz-Expires=3600&x-id=PutObject''),
        mem_world\<lparr>getSignedUrl := Some toy_sign,
                  calls := [Presign (PutObjectCommand (js ''bucket'')
                                       (js ''pdf_files/123-a.pdf'')) 3600]\<rparr>)
   \<and> getPresignedUrl (mem_env a_doc) (js ''pdf_files/123-a.pdf'') None mem_world
     = (Inr (js ''https://bucket.s3.amazonaws.com/pdf_files/123-a.pdf''), mem_world)"
proof -
  have "import_presigner ((mem_env a_doc)\<lparr>import_presigner := Some toy_sign\<rparr>) = Some toy_sign"
    by simp
  from getPresignedUrl_signed [OF this, of "js ''pdf_files/123-a.pdf''" mem_world]
  have "getPresignedUrl ((mem_env a_doc)\<lparr>import_presigner := Some toy_sign\<rparr>)
       (js ''pdf_files/123-a.pdf'') None mem_world
     = (Inr (js
         ''https://bucket.s3.amazonaws.com/pdf_files/123-a.pdf?X-Amz-Expires=3600&x-id=PutObject''),
        mem_world\<lparr>getSignedUrl := Some toy_sign,
                  calls := [Presign (PutObjectCommand (js ''bucket'')
                                       (js ''pdf_files/123-a.pdf'')) 3600]\<rparr>)"
    by (simp add: mem_env_def mem_world_def toy_sign_def toString_3600 js_def)
  moreover have "getPresignedUrl (mem_env a_doc) (js ''pdf_files/123-a.pdf'') None mem_world
     = (Inr (js ''https://bucket.s3.amazonaws.com/pdf_files/123-a.pdf''), mem_world)"
    using getPresignedUrl_fallback [of "mem_env a_doc" mem_world "js ''pdf_files/123-a.pdf''" None]
    by (simp add: mem_env_def mem_world_def js_def)
  ultimately show ?thesis by simp
qed

section \<open>What a caller sees of a failure\<close>

lemma uploadPdfToS3_catch_shape:
  "(\<exists>name message. uploadPdfToS3_catch error
        = JsError (js ''S3 upload failed: '' @ name @ js '' - '' @ message))
   \<or> (\<exists>message. uploadPdfToS3_catch error = JsError (js ''Failed to upload PDF: '' @ message))
   \<or> uploadPdfToS3_catch error = JsError (js ''Failed to upload PDF due to unknown error'')"
  by (cases error) (simp_all add: uploadPdfToS3_catch_def, blast)

lemma uploadExcelToS3_catch_shape:
  "(\<exists>name message. uploadExcelToS3_catch error
        = JsError (js ''S3 upload failed: '' @ name @ js '' - '' @ message))
   \<or> (\<exists>message. uploadExcelToS3_catch error = JsError (js ''Failed to upload Excel: '' @ message))
   \<or> uploadExcelToS3_catch error = JsError (js ''Failed to upload Excel due to unknown error'')"
  by (cases error) (simp_all add: uploadExcelToS3_catch_def, blast)

lemma listFilesFromS3_catch_shape:
  "(\<exists>name message. listFilesFromS3_catch error
        = JsError (js ''S3 list operation failed: '' @ name @ js '' - '' @ message))
   \<or> (\<exists>message. listFilesFromS3_catch error = JsError (js ''Failed to list files: '' @ message))
   \<or> listFilesFromS3_catch error = JsError (js ''Failed to list files due to unknown error'')"
  by (cases error) (simp_all add: listFilesFromS3_catch_def, blast)

lemma deleteFileFromS3_catch_shape:
  "(\<exists>name message. deleteFileFromS3_catch error
        = JsError (js ''S3 delete operation failed: '' @ name @ js '' - '' @ message))
   \<or> (\<exists>message. deleteFileFromS3_catch error = JsError (js ''Failed to delete file: '' @ message))
   \<or> deleteFileFromS3_catch error = JsError (js ''Failed to delete file due to unknown error'')"
  by (cases error) (simp_all add: deleteFileFromS3_catch_def, blast)

lemma uploadPdfToS3_fails:
  "fst (uploadPdfToS3 env f sourceLink w) = Inl e \<Longrightarrow> \<exists>error. e = uploadPdfToS3_catch error"
  by (auto simp: uploadPdfToS3_def Let_def split: sum.splits prod.splits option.splits if_splits)

lemma uploadExcelToS3_fails:
  "fst (uploadExcelToS3 env f w) = Inl e \<Longrightarrow> \<exists>error. e = uploadExcelToS3_catch error"
  by (auto simp: uploadExcelToS3_def Let_def split: sum.splits prod.splits option.splits if_splits)

lemma listFilesFromS3_fails:
  "fst (listFilesFromS3 env w) = Inl e \<Longrightarrow> \<exists>error. e = listFilesFromS3_catch error"
  by (auto simp: listFilesFromS3_def Let_def split: sum.splits prod.splits if_splits)

lemma deleteFileFromS3_fails:
  "fst (deleteFileFromS3 env fileKey w) = Inl e \<Longrightarrow> \<exists>error. e = deleteFileFromS3_catch error"
  by (auto simp: deleteFileFromS3_def Let_def split: sum.splits prod.splits if_splits)

text \<open>
  The kind of a failure is not always recoverable from what is thrown: a key rejected by
  the guard, with no call made, and a delete that the backend refused with a plain
  \<open>Error\<close> throw the same value.
\<close>

theorem failure_kinds_collide_counterexample:
  "deleteFileFromS3 (mem_env a_doc) (js ''evil/../../secret'') mem_world
     = (Inl (JsError (js ''Failed to delete file: Invalid file key format'')), mem_world)
   \<and> deleteFileFromS3
        ((mem_env a_doc)\<lparr>s3Client_send := send_fails (JsError (js ''Invalid file key format''))\<rparr>)
        (js ''pdf_files/123-a.pdf'') mem_world
     = (Inl (JsError (js ''Failed to delete file: Invalid file key format'')),
        mem_world\<lparr>calls :=
          [Send (DeleteObjectCommand (js ''bucket'') (js ''pdf_files/123-a.pdf''))]\<rparr>)"
  by (simp add: deleteFileFromS3_def deleteFileFromS3_catch_def send_def send_fails_def
        startsWith_def mem_env_def mem_world_def js_def)

lemma run_upload_not_a_pdf:
  "fst (uploadPdfToS3 (mem_env a_doc) not_a_pdf a_link mem_world)
     = Inl (JsError (js
         ''Failed to upload PDF: Failed to modify PDF metadata: No PDF header found''))"
proof -
  have "validateFileSize not_a_pdf = Inr True"
    by (simp add: validateFileSize_def not_a_pdf_def MAX_FILE_SIZE_MB_def)
  moreover have "js ''major-project-margdarshak'' \<noteq> []"
    by (simp add: js_def)
  ultimately show ?thesis
    by (simp add: uploadPdfToS3_def run_not_a_pdf uploadPdfToS3_catch_def js_def)
qed

lemma run_upload_wrong_type:
  "fst (uploadExcelToS3 (mem_env a_doc) a_pdf mem_world)
     = Inl (JsError (js
         ''Failed to upload Excel: Invalid Excel file format. Please upload a valid Excel file.''))"
proof -
  have "validateFileSize a_pdf = Inr True"
    by (simp add: validateFileSize_def a_pdf_def MAX_FILE_SIZE_MB_def)
  moreover have "file_type a_pdf \<notin> set validExcelTypes"
    by (simp add: a_pdf_def validExcelTypes_def js_def)
  ultimately show ?thesis
    by (simp add: uploadExcelToS3_def uploadExcelToS3_catch_def js_def)
qed

lemma run_list_excel_fails:
  "fst (listFilesFromS3 ((mem_env a_doc)\<lparr>s3Client_send := excel_listing_fails\<rparr>)
          (mem_world\<lparr>store := [(js ''pdf_files/1-a.pdf'', [0x25, 0x50])]\<rparr>))
     = Inl (JsError (js ''S3 list operation failed: AccessDenied - Access Denied''))"
  using run_pdf_listing run_excel_listing
  by (simp add: listFilesFromS3_def bucket_name listFilesFromS3_catch_def AccessDenied_def js_def)

lemma run_delete_empty:
  "fst (deleteFileFromS3 (mem_env a_doc) [] mem_world)
     = Inl (JsError (js ''Failed to delete file: File key is required''))"
  by (simp add: deleteFileFromS3_def deleteFileFromS3_catch_def js_def)


section \<open>The key of the put\<close>

lemma validateFileSize_ok:
  "file_size f \<le> 100 * 1048576 \<Longrightarrow> validateFileSize f = Inr True"
  by (simp add: validateFileSize_def MAX_FILE_SIZE_MB_def)

lemma bucket_literal: "js ''major-project-margdarshak'' \<noteq> []"
  by (simp add: js_def)









section \<open>The cause of a failure\<close>

lemma catch_equations:
  "(addSourceLinkToPdf_catch (S3ServiceException name message)
      = JsError (js ''Failed to modify PDF metadata: '' @ message)
    \<and> addSourceLinkToPdf_catch (JsError message)
      = JsError (js ''Failed to modify PDF metadata: '' @ message)
    \<and> addSourceLinkToPdf_catch NonError
      = JsError (js ''Failed to modify PDF metadata due to unknown error''))
   \<and> (uploadPdfToS3_catch (S3ServiceException name message)
      = JsError (js ''S3 upload failed: '' @ name @ js '' - '' @ message)
    \<and> uploadPdfToS3_catch (JsError message) = JsError (js ''Failed to upload PDF: '' @ message)
    \<and> uploadPdfToS3_catch NonError = JsError (js ''Failed to upload PDF due to unknown error''))
   \<and> (uploadExcelToS3_catch (S3ServiceException name message)
      = JsError (js ''S3 upload failed: '' @ name @ js '' - '' @ message)
    \<and> uploadExcelToS3_catch (JsError message)
      = JsError (js ''Failed to upload Excel: '' @ message)
    \<and> uploadExcelToS3_catch NonError
      = JsError (js ''Failed to upload Excel due to unknown error''))
   \<and> (listFilesFromS3_catch (S3ServiceException name message)
      = JsError (js ''S3 list operation failed: '' @ name @ js '' - '' @ message)
    \<and> listFilesFromS3_catch (JsError message) = JsError (js ''Failed to list files: '' @ message)
    \<and> listFilesFromS3_catch NonError = JsError (js ''Failed to list files due to unknown error''))
   \<and> (deleteFileFromS3_catch (S3ServiceException name message)
      = JsError (js ''S3 delete operation failed: '' @ name @ js '' - '' @ message)
    \<and> deleteFileFromS3_catch (JsError message)
      = JsError (js ''Failed to delete file: '' @ message)
    \<and> deleteFileFromS3_catch NonError
      = JsError (js ''Failed to delete file due to unknown error''))"
  by (simp add: addSourceLinkToPdf_catch_def uploadPdfToS3_catch_def uploadExcelToS3_catch_def
        listFilesFromS3_catch_def deleteFileFromS3_catch_def)

lemma uploadPdfToS3_causes:
  "(100 * 1048576 < file_size f \<longrightarrow>
      uploadPdfToS3 env f sourceLink w
        = (Inl (uploadPdfToS3_catch
                  (JsError (js ''File too large. Maximum size is 100MB.''))), w))
   \<and> (file_size f \<le> 100 * 1048576 \<and> file_arrayBuffer f = Inl cause \<longrightarrow>
      fst (uploadPdfToS3 env f sourceLink w)
        = Inl (uploadPdfToS3_catch (addSourceLinkToPdf_catch cause)))
   \<and> (file_size f \<le> 100 * 1048576 \<and> file_arrayBuffer f = Inr b
       \<and> PDFDocument_load env b = Inl cause \<longrightarrow>
      fst (uploadPdfToS3 env f sourceLink w)
        = Inl (uploadPdfToS3_catch (addSourceLinkToPdf_catch cause)))
   \<and> (file_size f \<le> 100 * 1048576 \<and> file_arrayBuffer f = Inr b
       \<and> PDFDocument_load env b = Inr d
       \<and> PDFDocument_save env (setMetadata env f sourceLink d) = Inl cause \<longrightarrow>
      fst (uploadPdfToS3 env f sourceLink w)
        = Inl (uploadPdfToS3_catch (addSourceLinkToPdf_catch cause)))
   \<and> (file_size f \<le> 100 * 1048576
       \<and> addSourceLinkToPdf env f sourceLink w = (Inr out, wEmbedded)
       \<and> encodeURIComponent env sourceLink = Inl cause \<longrightarrow>
      uploadPdfToS3 env f sourceLink w = (Inl (uploadPdfToS3_catch cause), wEmbedded))
   \<and> (file_size f \<le> 100 * 1048576
       \<and> addSourceLinkToPdf env f sourceLink w = (Inr out, wEmbedded)
       \<and> encodeURIComponent env sourceLink = Inr el
       \<and> encodeURIComponent env (file_name f) = Inl cause \<longrightarrow>
      uploadPdfToS3 env f sourceLink w = (Inl (uploadPdfToS3_catch cause), wEmbedded))
   \<and> (file_size f \<le> 100 * 1048576
       \<and> addSourceLinkToPdf env f sourceLink w = (Inr out, wEmbedded)
       \<and> encodeURIComponent env sourceLink = Inr el
       \<and> encodeURIComponent env (file_name f) = Inr en \<longrightarrow>
      (\<exists>p. Body p = Uint8Array out
         \<and> uploadPdfToS3 env f sourceLink w
             = (case Upload_done env p wEmbedded of
                  (Some error, w2) \<Rightarrow> (Inl (uploadPdfToS3_catch error), w2)
                | (None, w2) \<Rightarrow> (Inr (Key p), w2))))"
proof -
  have big: "100 * 1048576 < file_size f \<Longrightarrow>
      uploadPdfToS3 env f sourceLink w
        = (Inl (uploadPdfToS3_catch
                  (JsError (js ''File too large. Maximum size is 100MB.''))), w)"
    using bucket_literal by (simp add: uploadPdfToS3_def validateFileSize_too_large)
  have ok: "file_size f \<le> 100 * 1048576 \<Longrightarrow>
      uploadPdfToS3 env f sourceLink w =
        (case addSourceLinkToPdf env f sourceLink w of
           (Inl error, wEmbedded) \<Rightarrow> (Inl (uploadPdfToS3_catch error), wEmbedded)
         | (Inr modifiedPdfBytes, wEmbedded) \<Rightarrow>
            (case encodeURIComponent env sourceLink of
               Inl error \<Rightarrow> (Inl (uploadPdfToS3_catch error), wEmbedded)
             | Inr encodedLink \<Rightarrow>
                (case encodeURIComponent env (file_name f) of
                   Inl error \<Rightarrow> (Inl (uploadPdfToS3_catch error), wEmbedded)
                 | Inr encodedName \<Rightarrow>
                    (case Upload_done env
                       \<lparr>Bucket = js ''major-project-margdarshak'',
                        Key = js ''pdf_files/'' @ toString (Date_now env) @ js ''-''
                                @ sanitizeName (file_name f),
                        Body = Uint8Array modifiedPdfBytes,
                        ContentType = js ''application/pdf'',
                        ContentDisposition = js ''attachment; filename='' @ [0x22]
                                @ sanitizeName (file_name f) @ [0x22],
                        Metadata = [(''sourceLink'', encodedLink),
                                    (''originalName'', encodedName),
                                    (''uploadTimestamp'', toString (Date_now env)),
                                    (''fileSize'', toString (file_size f))]\<rparr> wEmbedded of
                       (Some error, w2) \<Rightarrow> (Inl (uploadPdfToS3_catch error), w2)
                     | (None, w2) \<Rightarrow>
                         (Inr (js ''pdf_files/'' @ toString (Date_now env) @ js ''-''
                                @ sanitizeName (file_name f)), w2)))))"
    using bucket_literal
    by (simp add: uploadPdfToS3_def validateFileSize_ok Let_def
          split: prod.splits sum.splits option.splits)
  have e1: "file_arrayBuffer f = Inl cause \<Longrightarrow>
      addSourceLinkToPdf env f sourceLink w = (Inl (addSourceLinkToPdf_catch cause), w)"
    by (simp add: addSourceLinkToPdf_def)
  have e2: "file_arrayBuffer f = Inr b \<Longrightarrow> PDFDocument_load env b = Inl cause \<Longrightarrow>
      fst (addSourceLinkToPdf env f sourceLink w) = Inl (addSourceLinkToPdf_catch cause)"
    by (simp add: addSourceLinkToPdf_def)
  have e3: "file_arrayBuffer f = Inr b \<Longrightarrow> PDFDocument_load env b = Inr d \<Longrightarrow>
      PDFDocument_save env (setMetadata env f sourceLink d) = Inl cause \<Longrightarrow>
      fst (addSourceLinkToPdf env f sourceLink w) = Inl (addSourceLinkToPdf_catch cause)"
    by (simp add: addSourceLinkToPdf_def)
  have emb: "fst (addSourceLinkToPdf env f sourceLink w) = Inl x \<Longrightarrow>
      file_size f \<le> 100 * 1048576 \<Longrightarrow>
      fst (uploadPdfToS3 env f sourceLink w) = Inl (uploadPdfToS3_catch x)" for x
    by (cases "addSourceLinkToPdf env f sourceLink w") (simp add: ok)
  show ?thesis
    apply (intro conjI impI)
          apply (erule big)
         apply (simp add: emb e1)
        apply (simp add: emb e2)
       apply (simp add: emb e3)
      apply (simp add: ok)
     apply (simp add: ok)
    apply (simp add: ok)
    apply (rule exI [where x = "\<lparr>Bucket = js ''major-project-margdarshak'',
                        Key = js ''pdf_files/'' @ toString (Date_now env) @ js ''-''
                                @ sanitizeName (file_name f),
                        Body = Uint8Array out,
                        ContentType = js ''application/pdf'',
                        ContentDisposition = js ''attachment; filename='' @ [0x22]
                                @ sanitizeName (file_name f) @ [0x22],
                        Metadata = [(''sourceLink'', el),
                                    (''originalName'', en),
                                    (''uploadTimestamp'', toString (Date_now env)),
                                    (''fileSize'', toString (file_size f))]\<rparr>"])
    apply (simp split: prod.splits option.splits)
    done
qed


lemma uploadExcelToS3_causes:
  "(100 * 1048576 < file_size f \<longrightarrow>
      uploadExcelToS3 env f w
        = (Inl (uploadExcelToS3_catch
                  (JsError (js ''File too large. Maximum size is 100MB.''))), w))
   \<and> (file_size f \<le> 100 * 1048576 \<and> file_type f \<notin> set validExcelTypes \<longrightarrow>
      uploadExcelToS3 env f w
        = (Inl (uploadExcelToS3_catch (JsError (js
                  ''Invalid Excel file format. Please upload a valid Excel file.''))), w))
   \<and> (file_size f \<le> 100 * 1048576 \<and> file_type f \<in> set validExcelTypes
       \<and> file_arrayBuffer f = Inl cause \<longrightarrow>
      uploadExcelToS3 env f w = (Inl (uploadExcelToS3_catch cause), w))
   \<and> (file_size f \<le> 100 * 1048576 \<and> file_type f \<in> set validExcelTypes
       \<and> file_arrayBuffer f = Inr b
       \<and> encodeURIComponent env (file_name f) = Inl cause \<longrightarrow>
      uploadExcelToS3 env f w = (Inl (uploadExcelToS3_catch cause), w))
   \<and> (file_size f \<le> 100 * 1048576 \<and> file_type f \<in> set validExcelTypes
       \<and> file_arrayBuffer f = Inr b
       \<and> encodeURIComponent env (file_name f) = Inr en \<longrightarrow>
      (\<exists>p. Body p = ArrayBuffer b
         \<and> uploadExcelToS3 env f w
             = (case Upload_done env p w of
                  (Some error, w2) \<Rightarrow> (Inl (uploadExcelToS3_catch error), w2)
                | (None, w2) \<Rightarrow> (Inr (Key p), w2))))"
  apply (intro conjI impI)
      apply (simp add: uploadExcelToS3_def validateFileSize_too_large)
     apply (simp add: uploadExcelToS3_def validateFileSize_ok)
    apply (simp add: uploadExcelToS3_def validateFileSize_ok)
   apply (simp add: uploadExcelToS3_def validateFileSize_ok)
  apply (rule exI [where x = "\<lparr>Bucket = BUCKET_NAME env,
                        Key = js ''excel_sheets/'' @ toString (Date_now env) @ js ''-''
                                @ sanitizeName (file_name f),
                        Body = ArrayBuffer b,
                        ContentType = file_type f,
                        ContentDisposition = js ''attachment; filename='' @ [0x22]
                                @ sanitizeName (file_name f) @ [0x22],
                        Metadata = [(''originalName'', en),
                                    (''uploadTimestamp'', toString (Date_now env)),
                                    (''fileSize'', toString (file_size f))]\<rparr>"])
  apply (simp add: uploadExcelToS3_def validateFileSize_ok Let_def
           split: prod.splits option.splits)
  done

lemma listFilesFromS3_causes:
  "(send env (ListObjectsV2Command (BUCKET_NAME env) (js ''pdf_files/'') 1000) w
        = (Inl pdfCause, wPdfSent)
    \<and> send env (ListObjectsV2Command (BUCKET_NAME env) (js ''excel_sheets/'') 1000) wPdfSent
        = (Inr excelResponse, wBothSent) \<longrightarrow>
      listFilesFromS3 env w = (Inl (listFilesFromS3_catch pdfCause), wBothSent))
   \<and> (send env (ListObjectsV2Command (BUCKET_NAME env) (js ''pdf_files/'') 1000) w
        = (Inr pdfResponse, wPdfSent)
    \<and> send env (ListObjectsV2Command (BUCKET_NAME env) (js ''excel_sheets/'') 1000) wPdfSent
        = (Inl excelCause, wBothSent) \<longrightarrow>
      listFilesFromS3 env w = (Inl (listFilesFromS3_catch excelCause), wBothSent))
   \<and> (send env (ListObjectsV2Command (BUCKET_NAME env) (js ''pdf_files/'') 1000) w
        = (Inl pdfCause, wPdfSent)
    \<and> send env (ListObjectsV2Command (BUCKET_NAME env) (js ''excel_sheets/'') 1000) wPdfSent
        = (Inl excelCause, wBothSent) \<longrightarrow>
      listFilesFromS3 env w
        = (Inl (listFilesFromS3_catch
                  (if excelSettlesFirst env then excelCause else pdfCause)), wBothSent))"
  by (simp add: listFilesFromS3_def)

lemma deleteFileFromS3_causes:
  "(fileKey = [] \<longrightarrow>
      deleteFileFromS3 env fileKey w
        = (Inl (deleteFileFromS3_catch (JsError (js ''File key is required''))), w))
   \<and> (fileKey \<noteq> [] \<and> \<not> startsWith fileKey (js ''pdf_files/'')
       \<and> \<not> startsWith fileKey (js ''excel_sheets/'') \<longrightarrow>
      deleteFileFromS3 env fileKey w
        = (Inl (deleteFileFromS3_catch (JsError (js ''Invalid file key format''))), w))
   \<and> ((startsWith fileKey (js ''pdf_files/'') \<or> startsWith fileKey (js ''excel_sheets/''))
       \<and> send env (DeleteObjectCommand (BUCKET_NAME env) fileKey) w = (Inl cause, wSent) \<longrightarrow>
      deleteFileFromS3 env fileKey w = (Inl (deleteFileFromS3_catch cause), wSent))"
  using startsWith_Nil
  by (auto simp: deleteFileFromS3_def)

lemma failure_shapes:
  "(fst (uploadPdfToS3 env f sourceLink w) = Inl ePdf \<longrightarrow>
      (\<exists>name message. ePdf = JsError (js ''S3 upload failed: '' @ name @ js '' - '' @ message))
      \<or> (\<exists>message. ePdf = JsError (js ''Failed to upload PDF: '' @ message))
      \<or> ePdf = JsError (js ''Failed to upload PDF due to unknown error''))
   \<and> (fst (uploadExcelToS3 env f w) = Inl eExcel \<longrightarrow>
      (\<exists>name message. eExcel = JsError (js ''S3 upload failed: '' @ name @ js '' - '' @ message))
      \<or> (\<exists>message. eExcel = JsError (js ''Failed to upload Excel: '' @ message))
      \<or> eExcel = JsError (js ''Failed to upload Excel due to unknown error''))
   \<and> (fst (listFilesFromS3 env w) = Inl eList \<longrightarrow>
      (\<exists>name message. eList = JsError (js ''S3 list operation failed: '' @ name @ js '' - '' @ message))
      \<or> (\<exists>message. eList = JsError (js ''Failed to list files: '' @ message))
      \<or> eList = JsError (js ''Failed to list files due to unknown error''))
   \<and> (fst (deleteFileFromS3 env fileKey w) = Inl eDelete \<longrightarrow>
      (\<exists>name message. eDelete = JsError (js ''S3 delete operation failed: '' @ name @ js '' - '' @ message))
      \<or> (\<exists>message. eDelete = JsError (js ''Failed to delete file: '' @ message))
      \<or> eDelete = JsError (js ''Failed to delete file due to unknown error''))"
proof (intro conjI)
  show "fst (uploadPdfToS3 env f sourceLink w) = Inl ePdf \<longrightarrow>
      (\<exists>name message. ePdf = JsError (js ''S3 upload failed: '' @ name @ js '' - '' @ message))
      \<or> (\<exists>message. ePdf = JsError (js ''Failed to upload PDF: '' @ message))
      \<or> ePdf = JsError (js ''Failed to upload PDF due to unknown error'')"
    using uploadPdfToS3_fails [of env f sourceLink w ePdf] uploadPdfToS3_catch_shape by auto
  show "fst (uploadExcelToS3 env f w) = Inl eExcel \<longrightarrow>
      (\<exists>name message. eExcel = JsError (js ''S3 upload failed: '' @ name @ js '' - '' @ message))
      \<or> (\<exists>message. eExcel = JsError (js ''Failed to upload Excel: '' @ message))
      \<or> eExcel = JsError (js ''Failed to upload Excel due to unknown error'')"
    using uploadExcelToS3_fails [of env f w eExcel] uploadExcelToS3_catch_shape by auto
  show "fst (listFilesFromS3 env w) = Inl eList \<longrightarrow>
      (\<exists>name message. eList = JsError (js ''S3 list operation failed: '' @ name @ js '' - '' @ message))
      \<or> (\<exists>message. eList = JsError (js ''Failed to list files: '' @ message))
      \<or> eList = JsError (js ''Failed to list files due to unknown error'')"
    using listFilesFromS3_fails [of env w eList] listFilesFromS3_catch_shape by auto
  show "fst (deleteFileFromS3 env fileKey w) = Inl eDelete \<longrightarrow>
      (\<exists>name message. eDelete = JsError (js ''S3 delete operation failed: '' @ name @ js '' - '' @ message))
      \<or> (\<exists>message. eDelete = JsError (js ''Failed to delete file: '' @ message))
      \<or> eDelete = JsError (js ''Failed to delete file due to unknown error'')"
    using deleteFileFromS3_fails [of env fileKey w eDelete] deleteFileFromS3_catch_shape by auto
qed

text \<open>
  C9. Every failure of \<open>uploadPdfToS3\<close>, \<open>uploadExcelToS3\<close>, \<open>listFilesFromS3\<close> and
  \<open>deleteFileFromS3\<close> is a plain \<open>Error\<close> that carries a message and nothing else: the
  operation's service prefix followed by a name, \<open> - \<close> and a message; or the
  operation's general prefix followed by a message; or the operation's fixed text for
  an unknown error. Each catch clause makes the first of an \<open>S3ServiceException\<close>, from
  its name and message, the second of any other \<open>Error\<close>, from its message, and the
  third of anything else. And every failing step of an operation fails with the catch
  clause applied to the cause of that very step: the size and type checks and the key
  guard to their own errors, the file read, the PDF library (through the catch clause of
  \<open>addSourceLinkToPdf\<close> first), \<open>encodeURIComponent\<close>, the put, the listings and the
  delete to what they threw or rejected with.
\<close>

theorem failures_are_plain_errors:
  "((fst (uploadPdfToS3 env f sourceLink w) = Inl ePdf \<longrightarrow>
         (\<exists>name message. ePdf = JsError (js ''S3 upload failed: '' @ name @ js '' - '' @ message))
         \<or> (\<exists>message. ePdf = JsError (js ''Failed to upload PDF: '' @ message))
         \<or> ePdf = JsError (js ''Failed to upload PDF due to unknown error''))
      \<and> (fst (uploadExcelToS3 env f w) = Inl eExcel \<longrightarrow>
         (\<exists>name message. eExcel = JsError (js ''S3 upload failed: '' @ name @ js '' - '' @ message))
         \<or> (\<exists>message. eExcel = JsError (js ''Failed to upload Excel: '' @ message))
         \<or> eExcel = JsError (js ''Failed to upload Excel due to unknown error''))
      \<and> (fst (listFilesFromS3 env w) = Inl eList \<longrightarrow>
         (\<exists>name message. eList = JsError (js ''S3 list operation failed: '' @ name @ js '' - '' @ message))
         \<or> (\<exists>message. eList = JsError (js ''Failed to list files: '' @ message))
         \<or> eList = JsError (js ''Failed to list files due to unknown error''))
      \<and> (fst (deleteFileFromS3 env fileKey w) = Inl eDelete \<longrightarrow>
         (\<exists>name message. eDelete = JsError (js ''S3 delete operation failed: '' @ name @ js '' - '' @ message))
         \<or> (\<exists>message. eDelete = JsError (js ''Failed to delete file: '' @ message))
         \<or> eDelete = JsError (js ''Failed to delete file due to unknown error'')))
   \<and> ((addSourceLinkToPdf_catch (S3ServiceException name message)
         = JsError (js ''Failed to modify PDF metadata: '' @ message)
       \<and> addSourceLinkToPdf_catch (JsError message)
         = JsError (js ''Failed to modify PDF metadata: '' @ message)
       \<and> addSourceLinkToPdf_catch NonError
         = JsError (js ''Failed to modify PDF metadata due to unknown error''))
      \<and> (uploadPdfToS3_catch (S3ServiceException name message)
         = JsError (js ''S3 upload failed: '' @ name @ js '' - '' @ message)
       \<and> uploadPdfToS3_catch (JsError message) = JsError (js ''Failed to upload PDF: '' @ message)
       \<and> uploadPdfToS3_catch NonError = JsError (js ''Failed to upload PDF due to unknown error''))
      \<and> (uploadExcelToS3_catch (S3ServiceException name message)
         = JsError (js ''S3 upload failed: '' @ name @ js '' - '' @ message)
       \<and> uploadExcelToS3_catch (JsError message)
         = JsError (js ''Failed to upload Excel: '' @ message)
       \<and> uploadExcelToS3_catch NonError
         = JsError (js ''Failed to upload Excel due to unknown error''))
      \<and> (listFilesFromS3_catch (S3ServiceException name message)
         = JsError (js ''S3 list operation failed: '' @ name @ js '' - '' @ message)
       \<and> listFilesFromS3_catch (JsError message) = JsError (js ''Failed to list files: '' @ message)
       \<and> listFilesFromS3_catch NonError = JsError (js ''Failed to list files due to unknown error''))
      \<and> (deleteFileFromS3_catch (S3ServiceException name message)
         = JsError (js ''S3 delete operation failed: '' @ name @ js '' - '' @ message)
       \<and> deleteFileFromS3_catch (JsError message)
         = JsError (js ''Failed to delete file: '' @ message)
       \<and> deleteFileFromS3_catch NonError
         = JsError (js ''Failed to delete file due to unknown error'')))
   \<and> ((100 * 1048576 < file_size f \<longrightarrow>
         uploadPdfToS3 env f sourceLink w
           = (Inl (uploadPdfToS3_catch
                     (JsError (js ''File too large. Maximum size is 100MB.''))), w))
      \<and> (file_size f \<le> 100 * 1048576 \<and> file_arrayBuffer f = Inl cause \<longrightarrow>
         fst (uploadPdfToS3 env f sourceLink w)
           = Inl (uploadPdfToS3_catch (addSourceLinkToPdf_catch cause)))
      \<and> (file_size f \<le> 100 * 1048576 \<and> file_arrayBuffer f = Inr b
          \<and> PDFDocument_load env b = Inl cause \<longrightarrow>
         fst (uploadPdfToS3 env f sourceLink w)
           = Inl (uploadPdfToS3_catch (addSourceLinkToPdf_catch cause)))
      \<and> (file_size f \<le> 100 * 1048576 \<and> file_arrayBuffer f = Inr b
          \<and> PDFDocument_load env b = Inr d
          \<and> PDFDocument_save env (setMetadata env f sourceLink d) = Inl cause \<longrightarrow>
         fst (uploadPdfToS3 env f sourceLink w)
           = Inl (uploadPdfToS3_catch (addSourceLinkToPdf_catch cause)))
      \<and> (file_size f \<le> 100 * 1048576
          \<and> addSourceLinkToPdf env f sourceLink w = (Inr out, wEmbedded)
          \<and> encodeURIComponent env sourceLink = Inl cause \<longrightarrow>
         uploadPdfToS3 env f sourceLink w = (Inl (uploadPdfToS3_catch cause), wEmbedded))
      \<and> (file_size f \<le> 100 * 1048576
          \<and> addSourceLinkToPdf env f sourceLink w = (Inr out, wEmbedded)
          \<and> encodeURIComponent env sourceLink = Inr el
          \<and> encodeURIComponent env (file_name f) = Inl cause \<longrightarrow>
         uploadPdfToS3 env f sourceLink w = (Inl (uploadPdfToS3_catch cause), wEmbedded))
      \<and> (file_size f \<le> 100 * 1048576
          \<and> addSourceLinkToPdf env f sourceLink w = (Inr out, wEmbedded)
          \<and> encodeURIComponent env sourceLink = Inr el
          \<and> encodeURIComponent env (file_name f) = Inr en \<longrightarrow>
         (\<exists>p. Body p = Uint8Array out
            \<and> uploadPdfToS3 env f sourceLink w
                = (case Upload_done env p wEmbedded of
                     (Some error, w2) \<Rightarrow> (Inl (uploadPdfToS3_catch error), w2)
                   | (None, w2) \<Rightarrow> (Inr (Key p), w2)))))
   \<and> ((100 * 1048576 < file_size f \<longrightarrow>
         uploadExcelToS3 env f w
           = (Inl (uploadExcelToS3_catch
                     (JsError (js ''File too large. Maximum size is 100MB.''))), w))
      \<and> (file_size f \<le> 100 * 1048576 \<and> file_type f \<notin> set validExcelTypes \<longrightarrow>
         uploadExcelToS3 env f w
           = (Inl (uploadExcelToS3_catch (JsError (js
                     ''Invalid Excel file format. Please upload a valid Excel file.''))), w))
      \<and> (file_size f \<le> 100 * 1048576 \<and> file_type f \<in> set validExcelTypes
          \<and> file_arrayBuffer f = Inl cause \<longrightarrow>
         uploadExcelToS3 env f w = (Inl (uploadExcelToS3_catch cause), w))
      \<and> (file_size f \<le> 100 * 1048576 \<and> file_type f \<in> set validExcelTypes
          \<and> file_arrayBuffer f = Inr b
          \<and> encodeURIComponent env (file_name f) = Inl cause \<longrightarrow>
         uploadExcelToS3 env f w = (Inl (uploadExcelToS3_catch cause), w))
      \<and> (file_size f \<le> 100 * 1048576 \<and> file_type f \<in> set validExcelTypes
          \<and> file_arrayBuffer f = Inr b
          \<and> encodeURIComponent env (file_name f) = Inr en \<longrightarrow>
         (\<exists>p. Body p = ArrayBuffer b
            \<and> uploadExcelToS3 env f w
                = (case Upload_done env p w of
                     (Some error, w2) \<Rightarrow> (Inl (uploadExcelToS3_catch error), w2)
                   | (None, w2) \<Rightarrow> (Inr (Key p), w2)))))
   \<and> ((send env (ListObjectsV2Command (BUCKET_NAME env) (js ''pdf_files/'') 1000) w
           = (Inl pdfCause, wPdfSent)
       \<and> send env (ListObjectsV2Command (BUCKET_NAME env) (js ''excel_sheets/'') 1000) wPdfSent
           = (Inr excelResponse, wBothSent) \<longrightarrow>
         listFilesFromS3 env w = (Inl (listFilesFromS3_catch pdfCause), wBothSent))
      \<and> (send env (ListObjectsV2Command (BUCKET_NAME env) (js ''pdf_files/'') 1000) w
           = (Inr pdfResponse, wPdfSent)
       \<and> send env (ListObjectsV2Command (BUCKET_NAME env) (js ''excel_sheets/'') 1000) wPdfSent
           = (Inl excelCause, wBothSent) \<longrightarrow>
         listFilesFromS3 env w = (Inl (listFilesFromS3_catch excelCause), wBothSent))
      \<and> (send env (ListObjectsV2Command (BUCKET_NAME env) (js ''pdf_files/'') 1000) w
           = (Inl pdfCause, wPdfSent)
       \<and> send env (ListObjectsV2Command (BUCKET_NAME env) (js ''excel_sheets/'') 1000) wPdfSent
           = (Inl excelCause, wBothSent) \<longrightarrow>
         listFilesFromS3 env w
           = (Inl (listFilesFromS3_catch
                     (if excelSettlesFirst env then excelCause else pdfCause)), wBothSent)))
   \<and> ((fileKey = [] \<longrightarrow>
         deleteFileFromS3 env fileKey w
           = (Inl (deleteFileFromS3_catch (JsError (js ''File key is required''))), w))
      \<and> (fileKey \<noteq> [] \<and> \<not> startsWith fileKey (js ''pdf_files/'')
          \<and> \<not> startsWith fileKey (js ''excel_sheets/'') \<longrightarrow>
         deleteFileFromS3 env fileKey w
           = (Inl (deleteFileFromS3_catch (JsError (js ''Invalid file key format''))), w))
      \<and> ((startsWith fileKey (js ''pdf_files/'') \<or> startsWith fileKey (js ''excel_sheets/''))
          \<and> send env (DeleteObjectCommand (BUCKET_NAME env) fileKey) w = (Inl cause, wSent) \<longrightarrow>
         deleteFileFromS3 env fileKey w = (Inl (deleteFileFromS3_catch cause), wSent)))"
  by (rule conjI, rule failure_shapes, rule conjI, rule catch_equations,
      rule conjI, rule uploadPdfToS3_causes, rule conjI, rule uploadExcelToS3_causes,
      rule conjI, rule listFilesFromS3_causes, rule deleteFileFromS3_causes)


lemma run_delete_refused:
  "send ((mem_env a_doc)\<lparr>s3Client_send := send_fails AccessDenied\<rparr>)
        (DeleteObjectCommand (js ''bucket'') (js ''pdf_files/123-a.pdf'')) mem_world
     = (Inl AccessDenied,
        mem_world\<lparr>calls :=
          [Send (DeleteObjectCommand (js ''bucket'') (js ''pdf_files/123-a.pdf''))]\<rparr>)"
  by (simp add: send_def send_fails_def mem_env_def mem_world_def)

theorem failures_are_plain_errors_witness:
  "fst (uploadPdfToS3 (mem_env a_doc) not_a_pdf a_link mem_world)
     = Inl (JsError (js
         ''Failed to upload PDF: Failed to modify PDF metadata: No PDF header found''))
   \<and> uploadExcelToS3 (mem_env a_doc) a_pdf mem_world
     = (Inl (JsError (js
         ''Failed to upload Excel: Invalid Excel file format. Please upload a valid Excel file.'')),
        mem_world)
   \<and> listFilesFromS3 ((mem_env a_doc)\<lparr>s3Client_send := excel_listing_fails\<rparr>)
          (mem_world\<lparr>store := [(js ''pdf_files/1-a.pdf'', [0x25, 0x50])]\<rparr>)
     = (Inl (JsError (js ''S3 list operation failed: AccessDenied - Access Denied'')),
        mem_world\<lparr>store := [(js ''pdf_files/1-a.pdf'', [0x25, 0x50])],
                  calls := [Send (ListObjectsV2Command (js ''bucket'') (js ''pdf_files/'') 1000),
                            Send (ListObjectsV2Command (js ''bucket'') (js ''excel_sheets/'') 1000)]\<rparr>)
   \<and> deleteFileFromS3 (mem_env a_doc) [] mem_world
     = (Inl (JsError (js ''Failed to delete file: File key is required'')), mem_world)
   \<and> deleteFileFromS3 ((mem_env a_doc)\<lparr>s3Client_send := send_fails AccessDenied\<rparr>)
        (js ''pdf_files/123-a.pdf'') mem_world
     = (Inl (JsError (js ''S3 delete operation failed: AccessDenied - Access Denied'')),
        mem_world\<lparr>calls :=
          [Send (DeleteObjectCommand (js ''bucket'') (js ''pdf_files/123-a.pdf''))]\<rparr>)"
proof -
  have sz: "file_size not_a_pdf \<le> 100 * 1048576" "file_size a_pdf \<le> 100 * 1048576"
    by (simp_all add: not_a_pdf_def a_pdf_def)
  have ab: "file_arrayBuffer not_a_pdf = Inr [0x68, 0x69]"
    by (simp add: not_a_pdf_def)
  have ld: "PDFDocument_load (mem_env a_doc) [0x68, 0x69]
              = Inl (JsError (js ''No PDF header found''))"
    by (simp add: mem_env_def toy_load_def)
  have ty: "file_type a_pdf \<notin> set validExcelTypes"
    by (simp add: a_pdf_def validExcelTypes_def js_def)
  have pre: "startsWith (js ''pdf_files/123-a.pdf'') (js ''pdf_files/'')"
    by (simp add: startsWith_def js_def)
  have c1: "uploadPdfToS3_catch (addSourceLinkToPdf_catch (JsError (js ''No PDF header found'')))
      = JsError (js ''Failed to upload PDF: Failed to modify PDF metadata: No PDF header found'')"
    by (simp add: uploadPdfToS3_catch_def addSourceLinkToPdf_catch_def js_def)
  have c2: "uploadExcelToS3_catch (JsError (js
                  ''Invalid Excel file format. Please upload a valid Excel file.''))
      = JsError (js
         ''Failed to upload Excel: Invalid Excel file format. Please upload a valid Excel file.'')"
    by (simp add: uploadExcelToS3_catch_def js_def)
  have c3: "listFilesFromS3_catch AccessDenied
      = JsError (js ''S3 list operation failed: AccessDenied - Access Denied'')"
    by (simp add: listFilesFromS3_catch_def AccessDenied_def js_def)
  have c4: "deleteFileFromS3_catch (JsError (js ''File key is required''))
      = JsError (js ''Failed to delete file: File key is required'')"
    by (simp add: deleteFileFromS3_catch_def js_def)
  have c5: "deleteFileFromS3_catch AccessDenied
      = JsError (js ''S3 delete operation failed: AccessDenied - Access Denied'')"
    by (simp add: deleteFileFromS3_catch_def AccessDenied_def js_def)
  note t = failures_are_plain_errors [where env = "mem_env a_doc" and f = not_a_pdf
      and sourceLink = a_link and w = mem_world and b = "[0x68, 0x69]"
      and cause = "JsError (js ''No PDF header found'')" and fileKey = "[]"]
  note t_pdf = t [THEN conjunct2, THEN conjunct2, THEN conjunct1]
  note t_del = t [THEN conjunct2, THEN conjunct2, THEN conjunct2, THEN conjunct2,
      THEN conjunct2]
  from t_pdf [THEN conjunct2, THEN conjunct2, THEN conjunct1] sz ab ld
  have pdf: "fst (uploadPdfToS3 (mem_env a_doc) not_a_pdf a_link mem_world)
      = Inl (uploadPdfToS3_catch (addSourceLinkToPdf_catch (JsError (js ''No PDF header found''))))"
    by simp
  from t_del [THEN conjunct1]
  have del: "deleteFileFromS3 (mem_env a_doc) [] mem_world
      = (Inl (deleteFileFromS3_catch (JsError (js ''File key is required''))), mem_world)"
    by simp
  note u = failures_are_plain_errors [where env = "mem_env a_doc" and f = a_pdf
      and w = mem_world]
  from u [THEN conjunct2, THEN conjunct2, THEN conjunct2, THEN conjunct1,
      THEN conjunct2, THEN conjunct1] sz ty
  have excel: "uploadExcelToS3 (mem_env a_doc) a_pdf mem_world
      = (Inl (uploadExcelToS3_catch (JsError (js
                  ''Invalid Excel file format. Please upload a valid Excel file.''))), mem_world)"
    by simp
  let ?env = "(mem_env a_doc)\<lparr>s3Client_send := excel_listing_fails\<rparr>"
  have bl: "BUCKET_NAME ?env = js ''bucket''" by (rule bucket_name)
  note v = failures_are_plain_errors [where env = ?env
      and w = "mem_world\<lparr>store := [(js ''pdf_files/1-a.pdf'', [0x25, 0x50])]\<rparr>"
      and excelCause = AccessDenied]
  from v [THEN conjunct2, THEN conjunct2, THEN conjunct2, THEN conjunct2, THEN conjunct1,
      THEN conjunct2, THEN conjunct1, unfolded bl] run_pdf_listing run_excel_listing
  have lst: "listFilesFromS3 ?env (mem_world\<lparr>store := [(js ''pdf_files/1-a.pdf'', [0x25, 0x50])]\<rparr>)
      = (Inl (listFilesFromS3_catch AccessDenied),
         mem_world\<lparr>store := [(js ''pdf_files/1-a.pdf'', [0x25, 0x50])],
                  calls := [Send (ListObjectsV2Command (js ''bucket'') (js ''pdf_files/'') 1000),
                            Send (ListObjectsV2Command (js ''bucket'') (js ''excel_sheets/'') 1000)]\<rparr>)"
    by blast
  let ?env' = "(mem_env a_doc)\<lparr>s3Client_send := send_fails AccessDenied\<rparr>"
  have bd: "BUCKET_NAME ?env' = js ''bucket''" by (rule bucket_name)
  note x = failures_are_plain_errors [where env = ?env' and w = mem_world
      and fileKey = "js ''pdf_files/123-a.pdf''" and cause = AccessDenied]
  from x [THEN conjunct2, THEN conjunct2, THEN conjunct2, THEN conjunct2, THEN conjunct2,
      THEN conjunct2, THEN conjunct2, unfolded bd] run_delete_refused pre
  have ref: "deleteFileFromS3 ?env' (js ''pdf_files/123-a.pdf'') mem_world
      = (Inl (deleteFileFromS3_catch AccessDenied),
         mem_world\<lparr>calls :=
          [Send (DeleteObjectCommand (js ''bucket'') (js ''pdf_files/123-a.pdf''))]\<rparr>)"
    by blast
  show ?thesis
    using pdf del excel lst ref by (simp add: c1 c2 c3 c4 c5)
qed

end
